theory Spec2Isabelle
  imports Main
begin

section \<open>Data model of the playerctl module (src/source.c)\<close>

text \<open>
  The module keeps one heap-allocated \<^verbatim>\<open>struct playerctl\<close> per lock-screen window.
  Pointers to such a struct are held by the window's module-data slot, by the
  user-data of pending asynchronous art fetches and by the user-data of pending
  timeouts, so the structs live in an explicit store indexed by address.
  A pointer to a struct is always one the code has just tested or allocated, hence
  an \<open>addr\<close>; a window pointer handed in by the host may be \<^verbatim>\<open>NULL\<close>, hence a
  \<open>window option\<close> at the entry points.
\<close>

type_synonym window = nat
type_synonym addr = nat

datatype align = GTK_ALIGN_FILL | GTK_ALIGN_START | GTK_ALIGN_END | GTK_ALIGN_CENTER

record gtk_revealer =
  reveal_child :: bool
  halign :: align
  valign :: align
  shown :: bool
  torn_down :: bool

text \<open>An image shows a named icon or a pixbuf decoded from stream data at a height.\<close>

datatype image = Icon_name string | Pixbuf nat int

text \<open>A label carries its widget name and either plain text or the bold markup built
  by \<^verbatim>\<open>g_markup_printf_escaped("<b>%s</b>", title)\<close>.\<close>

datatype label_text = Plain string | Bold_markup string

datatype gtk_label = Label (label_name: string) (label_text: label_text)

record gtk_button =
  sensitive :: bool
  button_image :: "string option"

text \<open>\<^verbatim>\<open>struct playerctl\<close>. The field \<open>album_art\<close> is \<open>None\<close> while it has never been
  assigned (the struct comes from \<^verbatim>\<open>g_malloc\<close>, which does not initialise it).\<close>

record playerctl =
  revealer :: gtk_revealer
  album_art :: "image option"
  label_box :: "gtk_label list"
  previous_button :: gtk_button
  play_pause_button :: gtk_button
  next_button :: gtk_button
  destroyed :: bool

datatype playback_status =
  PLAYERCTL_PLAYBACK_STATUS_PLAYING | PLAYERCTL_PLAYBACK_STATUS_PAUSED | PLAYERCTL_PLAYBACK_STATUS_STOPPED

text \<open>The properties of a \<^verbatim>\<open>PlayerctlPlayer\<close> that the module reads. A string property
  is \<open>None\<close> when the library returns \<^verbatim>\<open>NULL\<close>.\<close>

record player =
  player_name :: string
  status :: playback_status
  title :: "string option"
  album :: "string option"
  artist :: "string option"
  art_url :: "string option"
  can_go_next :: bool
  can_go_previous :: bool
  can_pause :: bool

text \<open>The fields of the host's \<^verbatim>\<open>struct GtkLock\<close> that the module reads.\<close>

record gtklock =
  focused_window :: "window option"
  hidden :: bool

text \<open>Calls into GLib, GTK, libsoup and playerctl whose order or occurrence matters,
  and the store of the \<open>destroyed\<close> flag, are recorded in program order.\<close>

datatype effect =
    G_warning string
  | Gtk_widget_destroy addr
  | Store_destroyed addr
  | G_free addr
  | G_file_read_async string addr
  | Soup_session_send_async string addr
  | G_timeout_add_seconds nat addr
  | G_signal_connect string
  | Manage_player string
  | Player_command string
  | Info_box_add window addr
  | Info_box_reorder_first window addr
  | Overlay_add window addr
  | G_object_unref string

text \<open>A failed \<^verbatim>\<open>g_assert\<close> aborts the process. A read through a pointer to a freed
  struct, and a read of a handle that was never assigned, have no defined behaviour in
  C. Each of the three ends a run with an error value.\<close>

datatype error =
    Assert_failed string
  | Use_after_free addr
  | Uninitialised_read addr

text \<open>The module's globals (\<^verbatim>\<open>self_id\<close>, \<^verbatim>\<open>player_manager\<close>, \<^verbatim>\<open>current_player\<close>,
  \<^verbatim>\<open>soup_session\<close>, \<^verbatim>\<open>art_size\<close>, \<^verbatim>\<open>position\<close>, \<^verbatim>\<open>show_hidden\<close>), the store of
  \<^verbatim>\<open>struct playerctl\<close> objects with its allocator, the windows' module-data slots
  (the slot \<^verbatim>\<open>ctx->module_data[self_id]\<close> of each window), the timeouts pending in
  the GLib main loop and the record of effects.\<close>

record state =
  self_id :: int
  player_manager :: bool
  current_player :: "player option"
  soup_session :: bool
  art_size :: int
  position :: string
  show_hidden :: bool
  heap :: "addr \<rightharpoonup> playerctl"
  next_addr :: addr
  module_data :: "window \<rightharpoonup> addr"
  timeouts :: "(nat \<times> addr) list"
  trace :: "effect list"

definition then_do :: "error + 'a \<Rightarrow> ('a \<Rightarrow> error + 'b) \<Rightarrow> error + 'b" where
  "then_do m f = (case m of Inl e \<Rightarrow> Inl e | Inr x \<Rightarrow> f x)"

definition emit :: "effect \<Rightarrow> state \<Rightarrow> state" where
  "emit e s = s\<lparr>trace := trace s @ [e]\<rparr>"

definition g_warning :: "string \<Rightarrow> state \<Rightarrow> state" where
  "g_warning msg s = emit (G_warning msg) s"

text \<open>Reading through a pointer to a \<^verbatim>\<open>struct playerctl\<close>: a struct that was given to
  \<^verbatim>\<open>g_free\<close> is no longer in the store.\<close>

definition deref :: "addr \<Rightarrow> state \<Rightarrow> error + playerctl" where
  "deref a s = (case heap s a of None \<Rightarrow> Inl (Use_after_free a) | Some wd \<Rightarrow> Inr wd)"

definition store :: "addr \<Rightarrow> playerctl \<Rightarrow> state \<Rightarrow> state" where
  "store a wd s = s\<lparr>heap := (heap s)(a \<mapsto> wd)\<rparr>"

definition G_SOURCE_REMOVE :: bool where
  "G_SOURCE_REMOVE = False"

definition G_SOURCE_CONTINUE :: bool where
  "G_SOURCE_CONTINUE = True"

subsection \<open>GTK and GLib calls on the widgets of a struct\<close>

definition gtk_revealer_set_reveal_child :: "addr \<Rightarrow> bool \<Rightarrow> state \<Rightarrow> error + state" where
  "gtk_revealer_set_reveal_child a b s =
     then_do (deref a s) (\<lambda>wd. Inr (store a (wd\<lparr>revealer := (revealer wd)\<lparr>reveal_child := b\<rparr>\<rparr>) s))"

definition gtk_widget_show_all :: "addr \<Rightarrow> state \<Rightarrow> error + state" where
  "gtk_widget_show_all a s =
     then_do (deref a s) (\<lambda>wd. Inr (store a (wd\<lparr>revealer := (revealer wd)\<lparr>shown := True\<rparr>\<rparr>) s))"

text \<open>\<^verbatim>\<open>gtk_widget_destroy(widget->revealer)\<close>: the revealer and the subtree it holds are
  torn down.\<close>

definition gtk_widget_destroy_revealer :: "addr \<Rightarrow> state \<Rightarrow> error + state" where
  "gtk_widget_destroy_revealer a s =
     then_do (deref a s) (\<lambda>wd.
       Inr (emit (Gtk_widget_destroy a) (store a (wd\<lparr>revealer := (revealer wd)\<lparr>torn_down := True\<rparr>\<rparr>) s)))"

text \<open>Setting the content of \<^verbatim>\<open>widget->album_art\<close> reads the handle from the struct.\<close>

definition gtk_image_set :: "addr \<Rightarrow> image \<Rightarrow> state \<Rightarrow> error + state" where
  "gtk_image_set a img s =
     then_do (deref a s) (\<lambda>wd.
       case album_art wd of
         None \<Rightarrow> Inl (Uninitialised_read a)
       | Some old \<Rightarrow> Inr (store a (wd\<lparr>album_art := Some img\<rparr>) s))"

text \<open>\<^verbatim>\<open>g_uri_peek_scheme\<close> of GLib: the scheme of a URI string is a letter followed by
  letters, digits, \<open>+\<close>, \<open>-\<close> or \<open>.\<close> up to a colon; it is returned in lower case, and
  \<^verbatim>\<open>NULL\<close> when the string does not start with a scheme.\<close>

definition g_ascii_isalpha :: "char \<Rightarrow> bool" where
  "g_ascii_isalpha c =
     ((65 \<le> (of_char c :: nat) \<and> (of_char c :: nat) \<le> 90) \<or>
      (97 \<le> (of_char c :: nat) \<and> (of_char c :: nat) \<le> 122))"

definition g_ascii_isdigit :: "char \<Rightarrow> bool" where
  "g_ascii_isdigit c = (48 \<le> (of_char c :: nat) \<and> (of_char c :: nat) \<le> 57)"

definition g_ascii_tolower :: "char \<Rightarrow> char" where
  "g_ascii_tolower c =
     (if 65 \<le> (of_char c :: nat) \<and> (of_char c :: nat) \<le> 90
      then char_of ((of_char c :: nat) + 32) else c)"

definition scheme_char :: "char \<Rightarrow> bool" where
  "scheme_char c =
     (g_ascii_isalpha c \<or> g_ascii_isdigit c \<or> c = CHR ''.'' \<or> c = CHR ''+'' \<or> c = CHR ''-'')"

definition g_uri_peek_scheme :: "string \<Rightarrow> string option" where
  "g_uri_peek_scheme uri =
     (case uri of
        [] \<Rightarrow> None
      | c # cs \<Rightarrow>
          if g_ascii_isalpha c then
            (case dropWhile scheme_char cs of
               [] \<Rightarrow> None
             | d # ds \<Rightarrow>
                 if d = CHR '':'' then Some (map g_ascii_tolower (c # takeWhile scheme_char cs))
                 else None)
          else None)"

section \<open>Album art\<close>

text \<open>A stream either decodes to image data or makes
  \<^verbatim>\<open>gdk_pixbuf_new_from_stream_at_scale\<close> fail with a message; an asynchronous read or
  request either yields a stream or fails with a message.\<close>

type_synonym stream = "string + nat"
type_synonym fetch_result = "string + stream"

definition set_art_from_stream :: "stream \<Rightarrow> addr \<Rightarrow> state \<Rightarrow> error + state" where
  "set_art_from_stream strm a s =
     then_do (deref a s) (\<lambda>wd.
       if destroyed wd then Inr s
       else (case strm of
               Inl msg \<Rightarrow>
                 Inr (g_warning (''Failed loading album art (gdk_pixbuf_new_from_stream_at_scale): '' @ msg) s)
             | Inr data \<Rightarrow> gtk_image_set a (Pixbuf data (art_size s)) s))"

definition file_callback :: "fetch_result \<Rightarrow> addr \<Rightarrow> state \<Rightarrow> error + state" where
  "file_callback res a s =
     (case res of
        Inl msg \<Rightarrow> Inr (g_warning (''Failed loading album art (g_file_read_finish): '' @ msg) s)
      | Inr strm \<Rightarrow> set_art_from_stream strm a s)"

definition request_callback :: "fetch_result \<Rightarrow> addr \<Rightarrow> state \<Rightarrow> error + state" where
  "request_callback res a s =
     (case res of
        Inl msg \<Rightarrow> Inr (g_warning (''Failed loading album art (soup_request_send_finish): '' @ msg) s)
      | Inr strm \<Rightarrow> set_art_from_stream strm a s)"

text \<open>\<^verbatim>\<open>setup_album_art\<close>. The call of \<^verbatim>\<open>playerctl_player_print_metadata_prop\<close> passes
  \<^verbatim>\<open>NULL\<close> for the error, so the local \<^verbatim>\<open>error\<close> stays \<^verbatim>\<open>NULL\<close> and the first warning
  branch is never taken. No check of \<^verbatim>\<open>art_size\<close> is made here.\<close>

definition setup_album_art :: "addr \<Rightarrow> state \<Rightarrow> error + state" where
  "setup_album_art a s =
     then_do (deref a s) (\<lambda>wd.
       if destroyed wd then Inl (Assert_failed ''!widget->destroyed'')
       else
         then_do (gtk_image_set a (Icon_name ''audio-x-generic-symbolic'') s) (\<lambda>s1.
           case (case current_player s1 of None \<Rightarrow> None | Some p \<Rightarrow> art_url p) of
             None \<Rightarrow> Inr s1
           | Some uri \<Rightarrow>
               if uri = [] then Inr s1
               else if g_uri_peek_scheme uri = Some ''file''
                 then Inr (emit (G_file_read_async uri a) s1)
               else if g_uri_peek_scheme uri = Some ''http'' \<or> g_uri_peek_scheme uri = Some ''https''
                 then Inr (emit (Soup_session_send_async uri a) s1)
               else Inr (g_warning ''Failed loading album art (g_uri_peek_scheme): Unknown scheme'' s1)))"

section \<open>Player commands\<close>

text \<open>Each command handler takes the failure (if any) that the player reports for the
  command. \<^verbatim>\<open>play_pause\<close> passes \<^verbatim>\<open>&error\<close> to the library; \<^verbatim>\<open>next\<close> and \<^verbatim>\<open>previous\<close>
  pass \<^verbatim>\<open>NULL\<close>, so their local \<^verbatim>\<open>error\<close> keeps its initial value \<^verbatim>\<open>NULL\<close>.\<close>

definition play_pause :: "string option \<Rightarrow> state \<Rightarrow> state" where
  "play_pause failure s =
     (case failure of
        None \<Rightarrow> emit (Player_command ''play_pause'') s
      | Some msg \<Rightarrow> g_warning (''Failed play_pause: '' @ msg) (emit (Player_command ''play_pause'') s))"

definition next_track :: "string option \<Rightarrow> state \<Rightarrow> state" where
  "next_track failure s =
     (case (None :: string option) of
        None \<Rightarrow> emit (Player_command ''next'') s
      | Some msg \<Rightarrow> g_warning (''Failed go_next: '' @ msg) (emit (Player_command ''next'') s))"

definition previous :: "string option \<Rightarrow> state \<Rightarrow> state" where
  "previous failure s =
     (case (None :: string option) of
        None \<Rightarrow> emit (Player_command ''previous'') s
      | Some msg \<Rightarrow> g_warning (''Failed go_previous: '' @ msg) (emit (Player_command ''previous'') s))"

section \<open>Refreshing a widget\<close>

definition setup_playback :: "addr \<Rightarrow> playback_status \<Rightarrow> state \<Rightarrow> error + state" where
  "setup_playback a st s =
     then_do (deref a s) (\<lambda>wd.
       if destroyed wd then Inl (Assert_failed ''!widget->destroyed'')
       else Inr (store a
         (wd\<lparr>play_pause_button := (play_pause_button wd)\<lparr>button_image :=
            Some (if st = PLAYERCTL_PLAYBACK_STATUS_PLAYING then ''media-playback-pause-symbolic''
                  else ''media-playback-start-symbolic'')\<rparr>\<rparr>) s))"

definition setup_button_sensitive_handler :: "addr \<Rightarrow> state \<Rightarrow> error + (bool \<times> state)" where
  "setup_button_sensitive_handler a s =
     (case current_player s of
        None \<Rightarrow> Inr (G_SOURCE_REMOVE, s)
      | Some p \<Rightarrow>
          then_do (deref a s) (\<lambda>wd.
            if destroyed wd then Inr (G_SOURCE_REMOVE, s)
            else Inr (G_SOURCE_REMOVE, store a
              (wd\<lparr>previous_button := (previous_button wd)\<lparr>sensitive := can_go_previous p\<rparr>,
                  play_pause_button := (play_pause_button wd)\<lparr>sensitive := can_pause p\<rparr>,
                  next_button := (next_button wd)\<lparr>sensitive := can_go_next p\<rparr>\<rparr>) s)))"

text \<open>\<^verbatim>\<open>g_timeout_add_seconds(1, setup_button_sensitive_handler, widget)\<close> registers a
  timeout source with the main loop; the handler is then also called at once and its
  result dropped.\<close>

definition g_timeout_add_seconds :: "nat \<Rightarrow> addr \<Rightarrow> state \<Rightarrow> state" where
  "g_timeout_add_seconds secs a s =
     emit (G_timeout_add_seconds secs a) (s\<lparr>timeouts := timeouts s @ [(secs, a)]\<rparr>)"

definition setup_button_sensitive :: "addr \<Rightarrow> state \<Rightarrow> error + state" where
  "setup_button_sensitive a s =
     then_do (setup_button_sensitive_handler a (g_timeout_add_seconds 1 a s)) (\<lambda>r. Inr (snd r))"

text \<open>The main loop dispatching the oldest pending timeout: the source stays installed
  exactly when its handler returns \<^verbatim>\<open>G_SOURCE_CONTINUE\<close>.\<close>

definition g_timeout_dispatch :: "state \<Rightarrow> error + state" where
  "g_timeout_dispatch s =
     (case timeouts s of
        [] \<Rightarrow> Inr s
      | t # rest \<Rightarrow>
          then_do (setup_button_sensitive_handler (snd t) (s\<lparr>timeouts := rest\<rparr>)) (\<lambda>r.
            if fst r = G_SOURCE_CONTINUE then Inr ((snd r)\<lparr>timeouts := timeouts (snd r) @ [t]\<rparr>)
            else Inr (snd r)))"

text \<open>\<^verbatim>\<open>gtk_container_add(GTK_CONTAINER(widget->label_box), label)\<close> appends a child;
  \<^verbatim>\<open>gtk_container_foreach(GTK_CONTAINER(widget->label_box), widget_destroy, NULL)\<close>
  destroys every child of the label box.\<close>

definition add_label :: "addr \<Rightarrow> gtk_label \<Rightarrow> state \<Rightarrow> error + state" where
  "add_label a l s = then_do (deref a s) (\<lambda>wd. Inr (store a (wd\<lparr>label_box := label_box wd @ [l]\<rparr>) s))"

definition clear_labels :: "addr \<Rightarrow> state \<Rightarrow> error + state" where
  "clear_labels a s = then_do (deref a s) (\<lambda>wd. Inr (store a (wd\<lparr>label_box := []\<rparr>) s))"

text \<open>The test \<^verbatim>\<open>title && title[0] != '\0'\<close> on a string property.\<close>

definition present :: "string option \<Rightarrow> bool" where
  "present v = (case v of None \<Rightarrow> False | Some x \<Rightarrow> x \<noteq> [])"

definition setup_metadata :: "addr \<Rightarrow> state \<Rightarrow> error + state" where
  "setup_metadata a s =
     then_do (deref a s) (\<lambda>wd.
       if destroyed wd then Inl (Assert_failed ''!widget->destroyed'')
       else (case current_player s of
          None \<Rightarrow> gtk_revealer_set_reveal_child a False s
        | Some p \<Rightarrow>
            then_do (setup_playback a (status p) s) (\<lambda>s1.
            then_do (setup_album_art a s1) (\<lambda>s2.
            then_do (clear_labels a s2) (\<lambda>s3.
            then_do (if present (title p)
                     then add_label a (Label ''title-label'' (Bold_markup (the (title p)))) s3
                     else Inr s3) (\<lambda>s4.
            then_do (if present (album p)
                     then add_label a (Label ''album-label'' (Plain (the (album p)))) s4
                     else Inr s4) (\<lambda>s5.
            then_do (if present (artist p)
                     then add_label a (Label ''artist-label'' (Plain (the (artist p)))) s5
                     else Inr s5) (\<lambda>s6.
            then_do (setup_button_sensitive a s6) (\<lambda>s7.
            then_do (gtk_revealer_set_reveal_child a True s7) (\<lambda>s8.
            gtk_widget_show_all a s8))))))))))"

section \<open>Building the widget of a window\<close>

definition position_halign :: "string \<Rightarrow> align" where
  "position_halign pos =
     (if pos = ''top-left'' \<or> pos = ''bottom-left'' then GTK_ALIGN_START
      else if pos = ''top-right'' \<or> pos = ''bottom-right'' then GTK_ALIGN_END
      else GTK_ALIGN_CENTER)"

definition position_valign :: "string \<Rightarrow> align" where
  "position_valign pos =
     (if pos = ''top-left'' \<or> pos = ''top-right'' \<or> pos = ''top-center'' then GTK_ALIGN_START
      else if pos = ''bottom-left'' \<or> pos = ''bottom-right'' \<or> pos = ''bottom-center'' then GTK_ALIGN_END
      else if pos = ''above-clock'' \<or> pos = ''under-clock'' then GTK_ALIGN_FILL
      else GTK_ALIGN_START)"

definition position_unknown :: "string \<Rightarrow> bool" where
  "position_unknown pos =
     (pos \<notin> {''top-left'', ''top-right'', ''top-center'', ''bottom-left'', ''bottom-right'',
              ''bottom-center'', ''above-clock'', ''under-clock''})"

text \<open>The struct as \<^verbatim>\<open>setup_playerctl\<close> fills it in before it calls
  \<^verbatim>\<open>setup_metadata\<close>: the art image is created only under \<^verbatim>\<open>if(art_size)\<close>.\<close>

definition new_widget :: "state \<Rightarrow> playerctl" where
  "new_widget s =
     \<lparr>revealer = \<lparr>reveal_child = False, halign = position_halign (position s),
                  valign = position_valign (position s), shown = False, torn_down = False\<rparr>,
      album_art = (if art_size s = 0 then None else Some (Icon_name ''audio-x-generic-symbolic'')),
      label_box = [],
      previous_button = \<lparr>sensitive = True, button_image = Some ''media-skip-backward-symbolic''\<rparr>,
      play_pause_button = \<lparr>sensitive = True, button_image = None\<rparr>,
      next_button = \<lparr>sensitive = True, button_image = Some ''media-skip-forward-symbolic''\<rparr>,
      destroyed = False\<rparr>"

definition g_malloc_widget :: "state \<Rightarrow> state" where
  "g_malloc_widget s = s\<lparr>heap := (heap s)(next_addr s \<mapsto> new_widget s), next_addr := Suc (next_addr s)\<rparr>"

definition warn_position :: "state \<Rightarrow> state" where
  "warn_position s = (if position_unknown (position s) then g_warning ''playerctl: Unknown position'' s else s)"

definition attach_revealer :: "window \<Rightarrow> addr \<Rightarrow> state \<Rightarrow> state" where
  "attach_revealer w a s =
     (if position s = ''above-clock'' then emit (Info_box_reorder_first w a) (emit (Info_box_add w a) s)
      else if position s = ''under-clock'' then emit (Info_box_add w a) s
      else emit (Overlay_add w a) s)"

text \<open>\<^verbatim>\<open>setup_playerctl\<close> returns the window's struct, building it when the slot is
  empty. The slot is written only after \<^verbatim>\<open>setup_metadata\<close> has returned.\<close>

definition setup_playerctl :: "window \<Rightarrow> state \<Rightarrow> error + (addr \<times> state)" where
  "setup_playerctl w s =
     (case module_data s w of
        Some a \<Rightarrow> Inr (a, s)
      | None \<Rightarrow>
          then_do (setup_metadata (next_addr s)
                     (attach_revealer w (next_addr s) (warn_position (g_malloc_widget s)))) (\<lambda>s1.
            Inr (next_addr s, s1\<lparr>module_data := (module_data s1)(w \<mapsto> next_addr s)\<rparr>)))"

section \<open>Signals of the player manager and of the player\<close>

text \<open>\<^verbatim>\<open>playerctl_player_new_from_name\<close> belongs to the playerctl library; it yields a
  player object or \<^verbatim>\<open>NULL\<close>. It is a parameter of the two places that call it.\<close>

definition name_appeared :: "(string \<Rightarrow> player option) \<Rightarrow> string \<Rightarrow> state \<Rightarrow> state" where
  "name_appeared new_from_name name s =
     (case current_player s of
        Some p \<Rightarrow> s
      | None \<Rightarrow> emit (Manage_player name) (s\<lparr>current_player := new_from_name name\<rparr>))"

definition metadata :: "gtklock \<Rightarrow> state \<Rightarrow> error + state" where
  "metadata gl s =
     (case focused_window gl of
        None \<Rightarrow> Inr s
      | Some w \<Rightarrow>
          (case module_data s w of
             Some a \<Rightarrow> setup_metadata a s
           | None \<Rightarrow> then_do (setup_playerctl w s) (\<lambda>r. Inr (snd r))))"

definition playback_status :: "playback_status \<Rightarrow> gtklock \<Rightarrow> state \<Rightarrow> error + state" where
  "playback_status st gl s =
     (case focused_window gl of
        None \<Rightarrow> Inr s
      | Some w \<Rightarrow>
          then_do (case module_data s w of
                     Some a \<Rightarrow> then_do (setup_metadata a s) (\<lambda>s1. Inr (a, s1))
                   | None \<Rightarrow> setup_playerctl w s) (\<lambda>r.
            setup_playback (fst r) st (snd r)))"

definition player_appeared :: "gtklock \<Rightarrow> state \<Rightarrow> error + state" where
  "player_appeared gl s =
     then_do (case focused_window gl of
                None \<Rightarrow> Inr s
              | Some w \<Rightarrow> then_do (setup_playerctl w s) (\<lambda>r. Inr (snd r))) (\<lambda>s1.
       Inr (emit (G_signal_connect ''playback-status'') (emit (G_signal_connect ''metadata'') s1)))"

text \<open>\<^verbatim>\<open>player_vanished\<close>: the revealer is destroyed first, the flag is stored second,
  the struct is not freed, and only the focused window's slot is looked at.\<close>

definition player_vanished :: "gtklock \<Rightarrow> state \<Rightarrow> error + state" where
  "player_vanished gl s =
     (case focused_window gl of
        None \<Rightarrow> Inr (s\<lparr>current_player := None\<rparr>)
      | Some w \<Rightarrow>
          (case module_data s w of
             None \<Rightarrow> Inr (s\<lparr>current_player := None\<rparr>)
           | Some a \<Rightarrow>
               then_do (gtk_widget_destroy_revealer a (s\<lparr>current_player := None\<rparr>)) (\<lambda>s1.
               then_do (deref a s1) (\<lambda>wd.
                 Inr ((emit (Store_destroyed a) (store a (wd\<lparr>destroyed := True\<rparr>) s1))
                        \<lparr>module_data := (module_data s1)(w := None)\<rparr>)))))"

section \<open>Entry points called by the host\<close>

text \<open>\<^verbatim>\<open>on_activation\<close> takes what the playerctl library reports: the failure of
  \<^verbatim>\<open>playerctl_player_manager_new\<close> (if any) and the manager's list of player names.\<close>

definition on_activation ::
  "int \<Rightarrow> string option \<Rightarrow> string list \<Rightarrow> (string \<Rightarrow> player option) \<Rightarrow> state \<Rightarrow> state" where
  "on_activation ident failure names new_from_name s =
     (case failure of
        Some msg \<Rightarrow>
          (g_warning (''Playerctl failed: '' @ msg) (s\<lparr>self_id := ident, player_manager := False\<rparr>))
            \<lparr>soup_session := True\<rparr>
      | None \<Rightarrow>
          (emit (G_signal_connect ''name-appeared'')
             (case names of
                [] \<Rightarrow>
                  emit (G_signal_connect ''player-vanished'') (emit (G_signal_connect ''player-appeared'')
                    (s\<lparr>self_id := ident, player_manager := True\<rparr>))
              | name # rest \<Rightarrow>
                  emit (Manage_player name)
                    ((emit (G_signal_connect ''player-vanished'') (emit (G_signal_connect ''player-appeared'')
                       (s\<lparr>self_id := ident, player_manager := True\<rparr>)))
                       \<lparr>current_player := new_from_name name\<rparr>)))
            \<lparr>soup_session := True\<rparr>)"

definition on_focus_change :: "gtklock \<Rightarrow> window option \<Rightarrow> window option \<Rightarrow> state \<Rightarrow> error + state" where
  "on_focus_change gl win old s =
     (case win of
        None \<Rightarrow> Inl (Assert_failed ''win'')
      | Some w \<Rightarrow>
          then_do (case module_data s w of
                     Some a \<Rightarrow> then_do (setup_metadata a s) (\<lambda>s1. Inr (a, s1))
                   | None \<Rightarrow> setup_playerctl w s) (\<lambda>r.
          then_do (gtk_revealer_set_reveal_child (fst r) (\<not> hidden gl \<or> show_hidden (snd r)) (snd r)) (\<lambda>s2.
            case old of
              None \<Rightarrow> Inr s2
            | Some ow \<Rightarrow>
                if w = ow then Inr s2
                else (case module_data s2 ow of
                        None \<Rightarrow> Inl (Assert_failed ''old_widget'')
                      | Some oa \<Rightarrow> gtk_revealer_set_reveal_child oa False s2))))"

text \<open>\<^verbatim>\<open>on_window_destroy\<close>: the revealer is destroyed and the struct is freed; the
  \<^verbatim>\<open>destroyed\<close> flag is not stored.\<close>

definition on_window_destroy :: "gtklock \<Rightarrow> window option \<Rightarrow> state \<Rightarrow> error + state" where
  "on_window_destroy gl ctx s =
     (case ctx of
        None \<Rightarrow> Inl (Assert_failed ''ctx'')
      | Some w \<Rightarrow>
          (case module_data s w of
             None \<Rightarrow> Inr s
           | Some a \<Rightarrow>
               then_do (gtk_widget_destroy_revealer a s) (\<lambda>s1.
                 Inr ((emit (G_free a) (s1\<lparr>heap := (heap s1)(a := None)\<rparr>))
                        \<lparr>module_data := (module_data s1)(w := None)\<rparr>))))"

definition on_idle_hide :: "gtklock \<Rightarrow> state \<Rightarrow> error + state" where
  "on_idle_hide gl s =
     (case focused_window gl of
        None \<Rightarrow> Inr s
      | Some w \<Rightarrow>
          (case module_data s w of
             None \<Rightarrow> Inr s
           | Some a \<Rightarrow> gtk_revealer_set_reveal_child a (show_hidden s) s))"

definition on_idle_show :: "gtklock \<Rightarrow> state \<Rightarrow> error + state" where
  "on_idle_show gl s =
     (case focused_window gl of
        None \<Rightarrow> Inr s
      | Some w \<Rightarrow>
          (case module_data s w of
             None \<Rightarrow> Inr s
           | Some a \<Rightarrow> gtk_revealer_set_reveal_child a True s))"

definition g_module_unload :: "state \<Rightarrow> state" where
  "g_module_unload s = emit (G_object_unref ''soup_session'') (emit (G_object_unref ''player_manager'') s)"

text \<open>The globals as their static initialisers leave them, with nothing allocated.\<close>

definition initial_state :: state where
  "initial_state =
     \<lparr>self_id = 0, player_manager = False, current_player = None, soup_session = False,
      art_size = 64, position = ''top-center'', show_hidden = False,
      heap = Map.empty, next_addr = 0, module_data = Map.empty, timeouts = [], trace = []\<rparr>"

section \<open>The main loop\<close>

text \<open>Everything the host, the bus, GLib and the user can make the module run: the entry
  points, the signal handlers, a change of the tracked player's properties, the
  completion of an asynchronous read or request for a struct, the dispatch of a
  timeout and a click on a button. A sequence of events runs until one of them aborts.\<close>

datatype event =
    On_activation int "string option" "string list"
  | Name_appeared string
  | Properties_changed player
  | Metadata gtklock
  | Playback_status playback_status gtklock
  | Player_appeared gtklock
  | Player_vanished gtklock
  | On_focus_change gtklock "window option" "window option"
  | On_window_destroy gtklock "window option"
  | On_idle_hide gtklock
  | On_idle_show gtklock
  | File_done fetch_result addr
  | Request_done fetch_result addr
  | Timeout_due
  | Play_pause_clicked "string option"
  | Next_clicked "string option"
  | Previous_clicked "string option"

fun deliver :: "(string \<Rightarrow> player option) \<Rightarrow> event \<Rightarrow> state \<Rightarrow> error + state" where
  "deliver nf (On_activation ident failure names) s = Inr (on_activation ident failure names nf s)"
| "deliver nf (Name_appeared name) s = Inr (name_appeared nf name s)"
| "deliver nf (Properties_changed p) s =
     Inr (case current_player s of None \<Rightarrow> s | Some q \<Rightarrow> s\<lparr>current_player := Some p\<rparr>)"
| "deliver nf (Metadata gl) s = metadata gl s"
| "deliver nf (Playback_status st gl) s = playback_status st gl s"
| "deliver nf (Player_appeared gl) s = player_appeared gl s"
| "deliver nf (Player_vanished gl) s = player_vanished gl s"
| "deliver nf (On_focus_change gl win old) s = on_focus_change gl win old s"
| "deliver nf (On_window_destroy gl ctx) s = on_window_destroy gl ctx s"
| "deliver nf (On_idle_hide gl) s = on_idle_hide gl s"
| "deliver nf (On_idle_show gl) s = on_idle_show gl s"
| "deliver nf (File_done res a) s = file_callback res a s"
| "deliver nf (Request_done res a) s = request_callback res a s"
| "deliver nf Timeout_due s = g_timeout_dispatch s"
| "deliver nf (Play_pause_clicked failure) s = Inr (play_pause failure s)"
| "deliver nf (Next_clicked failure) s = Inr (next_track failure s)"
| "deliver nf (Previous_clicked failure) s = Inr (previous failure s)"

fun deliver_all :: "(string \<Rightarrow> player option) \<Rightarrow> event list \<Rightarrow> state \<Rightarrow> error + state" where
  "deliver_all nf [] s = Inr s"
| "deliver_all nf (e # es) s = then_do (deliver nf e s) (deliver_all nf es)"

section \<open>Notions used to state the properties\<close>

text \<open>The player session seen as a two-state machine.\<close>

datatype session = NoPlayer | HasPlayer

definition session_of :: "state \<Rightarrow> session" where
  "session_of s = (case current_player s of None \<Rightarrow> NoPlayer | Some p \<Rightarrow> HasPlayer)"

text \<open>The consistency of slots and store that the module maintains: a struct held by a
  window's slot was allocated, has not been freed or flagged, is held by no other slot,
  and has its art image unless the art size is 0.\<close>

definition state_ok :: "state \<Rightarrow> bool" where
  "state_ok s =
     (\<forall>w a. module_data s w = Some a \<longrightarrow>
        a < next_addr s \<and>
        (\<exists>wd. heap s a = Some wd \<and> \<not> destroyed wd \<and> (art_size s = 0 \<or> album_art wd \<noteq> None)) \<and>
        (\<forall>w'. module_data s w' = Some a \<longrightarrow> w' = w))"

text \<open>A struct that has been flagged, is allocated and is held by no slot.\<close>

definition retired :: "addr \<Rightarrow> state \<Rightarrow> bool" where
  "retired a s =
     ((case heap s a of None \<Rightarrow> False | Some wd \<Rightarrow> destroyed wd) \<and>
      a < next_addr s \<and> (\<forall>w. module_data s w \<noteq> Some a))"

text \<open>A later state keeps a struct: the struct is what it was, no new slot holds it and
  the allocator has not gone back.\<close>

definition kept :: "addr \<Rightarrow> state \<Rightarrow> state \<Rightarrow> bool" where
  "kept a s s' =
     (heap s' a = heap s a \<and> next_addr s \<le> next_addr s' \<and>
      (\<forall>w. module_data s' w = Some a \<longrightarrow> module_data s w = Some a))"

text \<open>The three metadata fields, the property of the player each one reads and the
  widget name of its label.\<close>

datatype field = Title | Album | Artist

definition field_value :: "field \<Rightarrow> player \<Rightarrow> string option" where
  "field_value f p = (case f of Title \<Rightarrow> title p | Album \<Rightarrow> album p | Artist \<Rightarrow> artist p)"

definition field_label :: "field \<Rightarrow> string" where
  "field_label f = (case f of Title \<Rightarrow> ''title-label'' | Album \<Rightarrow> ''album-label'' | Artist \<Rightarrow> ''artist-label'')"

definition labels_for :: "field \<Rightarrow> addr \<Rightarrow> state \<Rightarrow> gtk_label list" where
  "labels_for f a s =
     (case heap s a of
        None \<Rightarrow> []
      | Some wd \<Rightarrow> filter (\<lambda>l. label_name l = field_label f) (label_box wd))"

text \<open>The effects a call has added to the record, and whether the flag of a struct is
  stored before its revealer is torn down in a sequence of effects.\<close>

definition new_effects :: "state \<Rightarrow> error + state \<Rightarrow> error + effect list" where
  "new_effects s r = (case r of Inl e \<Rightarrow> Inl e | Inr s' \<Rightarrow> Inr (drop (length (trace s)) (trace s')))"

definition flag_before_teardown :: "addr \<Rightarrow> effect list \<Rightarrow> bool" where
  "flag_before_teardown a evs =
     (Store_destroyed a \<in> set (takeWhile (\<lambda>e. e \<noteq> Gtk_widget_destroy a) evs))"

text \<open>The struct of a live widget after a refresh while a player is tracked.\<close>

definition refreshed :: "player \<Rightarrow> playerctl \<Rightarrow> playerctl" where
  "refreshed p wd =
     wd\<lparr>revealer := (revealer wd)\<lparr>reveal_child := True, shown := True\<rparr>,
        album_art := Some (Icon_name ''audio-x-generic-symbolic''),
        label_box :=
          (if present (title p) then [Label ''title-label'' (Bold_markup (the (title p)))] else []) @
          (if present (album p) then [Label ''album-label'' (Plain (the (album p)))] else []) @
          (if present (artist p) then [Label ''artist-label'' (Plain (the (artist p)))] else []),
        previous_button := (previous_button wd)\<lparr>sensitive := can_go_previous p\<rparr>,
        play_pause_button := (play_pause_button wd)
          \<lparr>sensitive := can_pause p,
           button_image :=
             Some (if status p = PLAYERCTL_PLAYBACK_STATUS_PLAYING then ''media-playback-pause-symbolic''
                   else ''media-playback-start-symbolic'')\<rparr>,
        next_button := (next_button wd)\<lparr>sensitive := can_go_next p\<rparr>\<rparr>"

subsection \<open>A concrete run\<close>

text \<open>One player is on the bus at activation; window 0 gets the focus, then window 1.\<close>

definition demo_player :: player where
  "demo_player =
     \<lparr>player_name = ''mpv'', status = PLAYERCTL_PLAYBACK_STATUS_PLAYING,
      title = Some ''Song'', album = Some [], artist = None,
      art_url = Some ''file:///tmp/cover.png'',
      can_go_next = True, can_go_previous = False, can_pause = True\<rparr>"

definition demo_connect :: "string \<Rightarrow> player option" where
  "demo_connect n = Some (demo_player\<lparr>player_name := n\<rparr>)"

definition focus_on :: "window \<Rightarrow> gtklock" where
  "focus_on w = \<lparr>focused_window = Some w, hidden = False\<rparr>"

text \<open>The struct of a window of that run, with its revealer revealed or hidden.\<close>

definition demo_widget :: "bool \<Rightarrow> playerctl" where
  "demo_widget rv =
     \<lparr>revealer = \<lparr>reveal_child = rv, halign = GTK_ALIGN_CENTER, valign = GTK_ALIGN_START,
                  shown = True, torn_down = False\<rparr>,
      album_art = Some (Icon_name ''audio-x-generic-symbolic''),
      label_box = [Label ''title-label'' (Bold_markup ''Song'')],
      previous_button = \<lparr>sensitive = False, button_image = Some ''media-skip-backward-symbolic''\<rparr>,
      play_pause_button = \<lparr>sensitive = True, button_image = Some ''media-playback-pause-symbolic''\<rparr>,
      next_button = \<lparr>sensitive = True, button_image = Some ''media-skip-forward-symbolic''\<rparr>,
      destroyed = False\<rparr>"

definition run_activated :: state where
  "run_activated = on_activation 0 None [''mpv''] demo_connect initial_state"

definition run_focus0 :: state where
  "run_focus0 = projr (on_focus_change (focus_on 0) (Some 0) None run_activated)"

definition run_focus1 :: state where
  "run_focus1 = projr (on_focus_change (focus_on 1) (Some 1) (Some 0) run_focus0)"

definition run_vanished :: state where
  "run_vanished = projr (player_vanished (focus_on 1) run_focus1)"

section \<open>Basic facts about the model\<close>

lemma then_do_Inr [simp]: "then_do (Inr x) f = f x"
  by (simp add: then_do_def)

lemma then_do_Inl [simp]: "then_do (Inl e) f = Inl e"
  by (simp add: then_do_def)

lemma emit_fields [simp]:
  "trace (emit e s) = trace s @ [e]" "heap (emit e s) = heap s"
  "module_data (emit e s) = module_data s" "current_player (emit e s) = current_player s"
  "timeouts (emit e s) = timeouts s" "next_addr (emit e s) = next_addr s"
  "art_size (emit e s) = art_size s" "show_hidden (emit e s) = show_hidden s"
  "position (emit e s) = position s"
  by (simp_all add: emit_def)

lemma store_fields [simp]:
  "heap (store a wd s) = (heap s)(a \<mapsto> wd)" "trace (store a wd s) = trace s"
  "module_data (store a wd s) = module_data s" "current_player (store a wd s) = current_player s"
  "timeouts (store a wd s) = timeouts s" "next_addr (store a wd s) = next_addr s"
  "art_size (store a wd s) = art_size s" "show_hidden (store a wd s) = show_hidden s"
  "position (store a wd s) = position s"
  by (simp_all add: store_def)

lemma g_warning_fields [simp]:
  "trace (g_warning m s) = trace s @ [G_warning m]" "heap (g_warning m s) = heap s"
  "module_data (g_warning m s) = module_data s" "current_player (g_warning m s) = current_player s"
  "timeouts (g_warning m s) = timeouts s" "next_addr (g_warning m s) = next_addr s"
  "art_size (g_warning m s) = art_size s" "show_hidden (g_warning m s) = show_hidden s"
  "position (g_warning m s) = position s"
  by (simp_all add: g_warning_def)

lemma deref_Some [simp]: "heap s a = Some wd \<Longrightarrow> deref a s = Inr wd"
  by (simp add: deref_def)

lemma deref_None [simp]: "heap s a = None \<Longrightarrow> deref a s = Inl (Use_after_free a)"
  by (simp add: deref_def)

lemma gtk_image_set_Some:
  "heap s a = Some wd \<Longrightarrow> album_art wd = Some old \<Longrightarrow>
   gtk_image_set a img s = Inr (store a (wd\<lparr>album_art := Some img\<rparr>) s)"
  by (simp add: gtk_image_set_def)

lemma setup_playback_live:
  "heap s a = Some wd \<Longrightarrow> \<not> destroyed wd \<Longrightarrow>
   setup_playback a st s = Inr (store a
         (wd\<lparr>play_pause_button := (play_pause_button wd)\<lparr>button_image :=
            Some (if st = PLAYERCTL_PLAYBACK_STATUS_PLAYING then ''media-playback-pause-symbolic''
                  else ''media-playback-start-symbolic'')\<rparr>\<rparr>) s)"
  by (simp add: setup_playback_def)

lemma setup_album_art_live:
  assumes "heap s a = Some wd" "\<not> destroyed wd" "album_art wd = Some img"
  shows "\<exists>evs. setup_album_art a s =
     Inr ((store a (wd\<lparr>album_art := Some (Icon_name ''audio-x-generic-symbolic'')\<rparr>) s)\<lparr>trace := trace s @ evs\<rparr>)"
proof -
  let ?s1 = "store a (wd\<lparr>album_art := Some (Icon_name ''audio-x-generic-symbolic'')\<rparr>) s"
  have t: "trace ?s1 = trace s" by simp
  have "setup_album_art a s = Inr ?s1 \<or> (\<exists>e. setup_album_art a s = Inr (emit e ?s1))"
    unfolding setup_album_art_def using assms
    by (auto simp add: gtk_image_set_Some g_warning_def split: option.split)
  then show ?thesis
  proof
    assume "setup_album_art a s = Inr ?s1"
    then have "setup_album_art a s = Inr (?s1\<lparr>trace := trace s @ []\<rparr>)" by (simp add: store_def)
    then show ?thesis by blast
  next
    assume "\<exists>e. setup_album_art a s = Inr (emit e ?s1)"
    then obtain e where "setup_album_art a s = Inr (emit e ?s1)" by blast
    then have "setup_album_art a s = Inr (?s1\<lparr>trace := trace s @ [e]\<rparr>)" by (simp add: emit_def store_def)
    then show ?thesis by blast
  qed
qed


lemma timeout_add_fields [simp]:
  "trace (g_timeout_add_seconds n b s) = trace s @ [G_timeout_add_seconds n b]"
  "heap (g_timeout_add_seconds n b s) = heap s"
  "module_data (g_timeout_add_seconds n b s) = module_data s"
  "current_player (g_timeout_add_seconds n b s) = current_player s"
  "timeouts (g_timeout_add_seconds n b s) = timeouts s @ [(n, b)]"
  "next_addr (g_timeout_add_seconds n b s) = next_addr s"
  "art_size (g_timeout_add_seconds n b s) = art_size s"
  "show_hidden (g_timeout_add_seconds n b s) = show_hidden s"
  "position (g_timeout_add_seconds n b s) = position s"
  by (simp_all add: g_timeout_add_seconds_def)

lemma handler_live:
  "heap s a = Some wd \<Longrightarrow> \<not> destroyed wd \<Longrightarrow> current_player s = Some p \<Longrightarrow>
   setup_button_sensitive_handler a s = Inr (G_SOURCE_REMOVE, store a
              (wd\<lparr>previous_button := (previous_button wd)\<lparr>sensitive := can_go_previous p\<rparr>,
                  play_pause_button := (play_pause_button wd)\<lparr>sensitive := can_pause p\<rparr>,
                  next_button := (next_button wd)\<lparr>sensitive := can_go_next p\<rparr>\<rparr>) s)"
  by (simp add: setup_button_sensitive_handler_def)

lemma setup_button_sensitive_live:
  "heap s a = Some wd \<Longrightarrow> \<not> destroyed wd \<Longrightarrow> current_player s = Some p \<Longrightarrow>
   setup_button_sensitive a s = Inr (store a
              (wd\<lparr>previous_button := (previous_button wd)\<lparr>sensitive := can_go_previous p\<rparr>,
                  play_pause_button := (play_pause_button wd)\<lparr>sensitive := can_pause p\<rparr>,
                  next_button := (next_button wd)\<lparr>sensitive := can_go_next p\<rparr>\<rparr>)
              (g_timeout_add_seconds 1 a s))"
  by (simp add: setup_button_sensitive_def handler_live)

lemma set_reveal_live:
  "heap s a = Some wd \<Longrightarrow>
   gtk_revealer_set_reveal_child a b s = Inr (store a (wd\<lparr>revealer := (revealer wd)\<lparr>reveal_child := b\<rparr>\<rparr>) s)"
  by (simp add: gtk_revealer_set_reveal_child_def)

lemma show_all_live:
  "heap s a = Some wd \<Longrightarrow>
   gtk_widget_show_all a s = Inr (store a (wd\<lparr>revealer := (revealer wd)\<lparr>shown := True\<rparr>\<rparr>) s)"
  by (simp add: gtk_widget_show_all_def)

lemma add_label_live:
  "heap s a = Some wd \<Longrightarrow> add_label a l s = Inr (store a (wd\<lparr>label_box := label_box wd @ [l]\<rparr>) s)"
  by (simp add: add_label_def)

lemma clear_labels_live:
  "heap s a = Some wd \<Longrightarrow> clear_labels a s = Inr (store a (wd\<lparr>label_box := []\<rparr>) s)"
  by (simp add: clear_labels_def)

lemmas live_steps = setup_playback_live setup_button_sensitive_live set_reveal_live show_all_live
  add_label_live clear_labels_live

lemma store_same: "heap s a = Some wd \<Longrightarrow> store a wd s = s"
  by (simp add: store_def fun_upd_idem)

lemma add_label_if:
  "heap s a = Some wd \<Longrightarrow>
   (if c then add_label a l s else Inr s) =
     Inr (store a (wd\<lparr>label_box := label_box wd @ (if c then [l] else [])\<rparr>) s)"
  by (simp add: add_label_live store_same)

lemma map_upd_cong: "x = y \<Longrightarrow> m(a \<mapsto> x) = m(a \<mapsto> y)"
  by simp

lemma setup_metadata_player:
  assumes "heap s a = Some wd" "\<not> destroyed wd" "album_art wd = Some img" "current_player s = Some p"
  shows "\<exists>evs. setup_metadata a s =
     Inr (s\<lparr>heap := (heap s)(a \<mapsto> refreshed p wd), timeouts := timeouts s @ [(1, a)],
            trace := trace s @ evs @ [G_timeout_add_seconds 1 a]\<rparr>)"
proof -
  let ?wd1 = "wd\<lparr>play_pause_button := (play_pause_button wd)\<lparr>button_image :=
            Some (if status p = PLAYERCTL_PLAYBACK_STATUS_PLAYING then ''media-playback-pause-symbolic''
                  else ''media-playback-start-symbolic'')\<rparr>\<rparr>"
  let ?s1 = "store a ?wd1 s"
  have h1: "heap ?s1 a = Some ?wd1" "\<not> destroyed ?wd1" "album_art ?wd1 = Some img"
    using assms by simp_all
  from setup_album_art_live[OF h1] obtain evs where
    art: "setup_album_art a ?s1 =
      Inr ((store a (?wd1\<lparr>album_art := Some (Icon_name ''audio-x-generic-symbolic'')\<rparr>) ?s1)\<lparr>trace := trace ?s1 @ evs\<rparr>)"
    by blast
  have "setup_metadata a s =
     Inr (s\<lparr>heap := (heap s)(a \<mapsto> refreshed p wd), timeouts := timeouts s @ [(1, a)],
            trace := trace s @ evs @ [G_timeout_add_seconds 1 a]\<rparr>)"
    unfolding setup_metadata_def using assms
    apply (simp add: art live_steps add_label_if split del: if_split)
    apply (simp add: refreshed_def store_def emit_def g_timeout_add_seconds_def split del: if_split)
    apply (rule state.equality; simp split del: if_split)
    apply (rule map_upd_cong)
    apply (rule playerctl.equality; simp split del: if_split)
    done
  then show ?thesis by blast
qed

lemma setup_metadata_no_player:
  "heap s a = Some wd \<Longrightarrow> \<not> destroyed wd \<Longrightarrow> current_player s = None \<Longrightarrow>
   setup_metadata a s = Inr (store a (wd\<lparr>revealer := (revealer wd)\<lparr>reveal_child := False\<rparr>\<rparr>) s)"
  by (simp add: setup_metadata_def set_reveal_live)

lemma peek_scheme_Nil [simp]: "g_uri_peek_scheme [] = None"
  by (simp add: g_uri_peek_scheme_def)

lemma new_effects_Inr: "new_effects s (Inr s') = Inr (drop (length (trace s)) (trace s'))"
  by (simp add: new_effects_def)

lemma handler_returns_remove:
  "setup_button_sensitive_handler a s = Inr r \<Longrightarrow> fst r = G_SOURCE_REMOVE"
  by (auto simp add: setup_button_sensitive_handler_def then_do_def deref_def
      split: option.splits if_splits)

lemma dispatch_removes:
  assumes "timeouts s = t # rest" and "g_timeout_dispatch s = Inr s'"
  shows "timeouts s' = rest"
proof -
  from assms obtain r where
    r: "setup_button_sensitive_handler (snd t) (s\<lparr>timeouts := rest\<rparr>) = Inr r"
    and s': "s' = snd r"
    by (cases "setup_button_sensitive_handler (snd t) (s\<lparr>timeouts := rest\<rparr>)")
       (auto simp add: g_timeout_dispatch_def G_SOURCE_REMOVE_def G_SOURCE_CONTINUE_def
          dest: handler_returns_remove)
  from r have "timeouts (snd r) = rest"
    by (auto simp add: setup_button_sensitive_handler_def then_do_def deref_def
        split: option.splits if_splits)
  with s' show ?thesis by simp
qed

lemma refreshed_fields [simp]:
  "destroyed (refreshed p wd) = destroyed wd"
  "album_art (refreshed p wd) = Some (Icon_name ''audio-x-generic-symbolic'')"
  by (simp_all add: refreshed_def)

lemma refreshed_labels:
  "filter (\<lambda>l. label_name l = field_label f) (label_box (refreshed p wd)) =
     (if present (field_value f p)
      then [Label (field_label f)
              (case f of Title \<Rightarrow> Bold_markup (the (field_value f p))
                       | Album \<Rightarrow> Plain (the (field_value f p))
                       | Artist \<Rightarrow> Plain (the (field_value f p)))]
      else [])"
  by (cases f) (simp_all add: refreshed_def field_label_def field_value_def)

lemma refresh_with:
  assumes "heap s a = Some wd" and "\<not> destroyed wd" and "album_art wd = Some img"
  shows "\<exists>s'. setup_metadata a (s\<lparr>current_player := Some p\<rparr>) = Inr s' \<and>
           heap s' a = Some (refreshed p wd) \<and>
           labels_for f a s' =
             (if present (field_value f p)
              then [Label (field_label f)
                      (case f of Title \<Rightarrow> Bold_markup (the (field_value f p))
                               | Album \<Rightarrow> Plain (the (field_value f p))
                               | Artist \<Rightarrow> Plain (the (field_value f p)))]
              else [])"
proof -
  have "heap (s\<lparr>current_player := Some p\<rparr>) a = Some wd"
    "current_player (s\<lparr>current_player := Some p\<rparr>) = Some p"
    using assms by simp_all
  from setup_metadata_player[OF this(1) assms(2,3) this(2)] show ?thesis
    by (auto simp add: labels_for_def refreshed_labels simp del: refreshed_fields)
qed

lemma present_iff: "present v \<longleftrightarrow> (\<exists>x. v = Some x \<and> x \<noteq> [])"
  by (cases v) (simp_all add: present_def)

lemma g_malloc_widget_fields [simp]:
  "heap (g_malloc_widget s) = (heap s)(next_addr s \<mapsto> new_widget s)"
  "next_addr (g_malloc_widget s) = Suc (next_addr s)"
  "module_data (g_malloc_widget s) = module_data s"
  "current_player (g_malloc_widget s) = current_player s"
  "art_size (g_malloc_widget s) = art_size s"
  "show_hidden (g_malloc_widget s) = show_hidden s"
  "position (g_malloc_widget s) = position s"
  "timeouts (g_malloc_widget s) = timeouts s"
  by (simp_all add: g_malloc_widget_def)

lemma warn_position_fields [simp]:
  "heap (warn_position s) = heap s"
  "next_addr (warn_position s) = next_addr s"
  "module_data (warn_position s) = module_data s"
  "current_player (warn_position s) = current_player s"
  "art_size (warn_position s) = art_size s"
  "show_hidden (warn_position s) = show_hidden s"
  "position (warn_position s) = position s"
  "timeouts (warn_position s) = timeouts s"
  by (simp_all add: warn_position_def)

lemma attach_revealer_fields [simp]:
  "heap (attach_revealer w a s) = heap s"
  "next_addr (attach_revealer w a s) = next_addr s"
  "module_data (attach_revealer w a s) = module_data s"
  "current_player (attach_revealer w a s) = current_player s"
  "art_size (attach_revealer w a s) = art_size s"
  "show_hidden (attach_revealer w a s) = show_hidden s"
  "position (attach_revealer w a s) = position s"
  "timeouts (attach_revealer w a s) = timeouts s"
  by (simp_all add: attach_revealer_def)

lemma new_widget_fields [simp]:
  "destroyed (new_widget s) = False"
  "(album_art (new_widget s) = None) = (art_size s = 0)"
  by (simp_all add: new_widget_def)

lemma setup_metadata_frame:
  assumes "heap s a = Some wd" and "\<not> destroyed wd"
    and "current_player s = None \<or> album_art wd \<noteq> None"
  shows "\<exists>s' wd'. setup_metadata a s = Inr s' \<and> heap s' = (heap s)(a \<mapsto> wd') \<and>
           \<not> destroyed wd' \<and> (album_art wd \<noteq> None \<longrightarrow> album_art wd' \<noteq> None) \<and>
           module_data s' = module_data s \<and> current_player s' = current_player s \<and>
           art_size s' = art_size s \<and> show_hidden s' = show_hidden s \<and>
           next_addr s' = next_addr s"
proof (cases "current_player s")
  case None
  let ?wd' = "wd\<lparr>revealer := (revealer wd)\<lparr>reveal_child := False\<rparr>\<rparr>"
  from setup_metadata_no_player[OF assms(1,2) None]
  have "setup_metadata a s = Inr (store a ?wd' s)" .
  then show ?thesis
    apply (intro exI[of _ "store a ?wd' s"] exI[of _ ?wd'])
    using assms(2) by simp
next
  case (Some p)
  with assms(3) obtain img where "album_art wd = Some img" by auto
  from setup_metadata_player[OF assms(1,2) this Some] obtain evs where
    "setup_metadata a s =
     Inr (s\<lparr>heap := (heap s)(a \<mapsto> refreshed p wd), timeouts := timeouts s @ [(1, a)],
            trace := trace s @ evs @ [G_timeout_add_seconds 1 a]\<rparr>)"
    by blast
  then show ?thesis
    apply (intro exI[of _ "s\<lparr>heap := (heap s)(a \<mapsto> refreshed p wd), timeouts := timeouts s @ [(1, a)],
            trace := trace s @ evs @ [G_timeout_add_seconds 1 a]\<rparr>"] exI[of _ "refreshed p wd"])
    using assms(2) by simp
qed

lemma ensure_frame:
  assumes ok: "state_ok s" and art: "art_size s \<noteq> 0 \<or> current_player s = None"
  shows "\<exists>a s1 wd1.
     (case module_data s w of
        Some a \<Rightarrow> then_do (setup_metadata a s) (\<lambda>s1. Inr (a, s1))
      | None \<Rightarrow> setup_playerctl w s) = Inr (a, s1) \<and>
     heap s1 = (heap s)(a \<mapsto> wd1) \<and> \<not> destroyed wd1 \<and>
     (art_size s = 0 \<or> album_art wd1 \<noteq> None) \<and>
     module_data s1 = (module_data s)(w \<mapsto> a) \<and>
     (\<forall>ow. ow \<noteq> w \<longrightarrow> module_data s ow \<noteq> Some a) \<and>
     a < next_addr s1 \<and> next_addr s \<le> next_addr s1 \<and>
     current_player s1 = current_player s \<and> art_size s1 = art_size s \<and>
     show_hidden s1 = show_hidden s"
proof (cases "module_data s w")
  case (Some a)
  with ok obtain wd where wd: "a < next_addr s" "heap s a = Some wd" "\<not> destroyed wd"
    "art_size s = 0 \<or> album_art wd \<noteq> None" and uniq: "\<forall>w'. module_data s w' = Some a \<longrightarrow> w' = w"
    unfolding state_ok_def by blast
  from wd(4) art have "current_player s = None \<or> album_art wd \<noteq> None" by blast
  from setup_metadata_frame[OF wd(2,3) this] obtain s' wd' where
    r: "setup_metadata a s = Inr s'" "heap s' = (heap s)(a \<mapsto> wd')" "\<not> destroyed wd'"
      "album_art wd \<noteq> None \<longrightarrow> album_art wd' \<noteq> None" "module_data s' = module_data s"
      "current_player s' = current_player s" "art_size s' = art_size s"
      "show_hidden s' = show_hidden s" "next_addr s' = next_addr s"
    by blast
  have md: "module_data s' = (module_data s)(w \<mapsto> a)"
    using r(5) Some by (simp add: fun_upd_idem)
  have run: "(case module_data s w of
        Some a \<Rightarrow> then_do (setup_metadata a s) (\<lambda>s1. Inr (a, s1))
      | None \<Rightarrow> setup_playerctl w s) = Inr (a, s')"
    using Some r(1) by simp
  have art': "art_size s = 0 \<or> album_art wd' \<noteq> None"
    using wd(4) r(4) by blast
  have others: "\<forall>ow. ow \<noteq> w \<longrightarrow> module_data s ow \<noteq> Some a"
    using uniq by blast
  have lt: "a < next_addr s'" "next_addr s \<le> next_addr s'"
    using wd(1) r(9) by simp_all
  from run r(2,3) art' md others lt r(6,7,8) show ?thesis
    by (intro exI[of _ a] exI[of _ s'] exI[of _ wd'] conjI)
next
  case None
  let ?n = "next_addr s"
  let ?s0 = "attach_revealer w ?n (warn_position (g_malloc_widget s))"
  have h0: "heap ?s0 ?n = Some (new_widget s)" "\<not> destroyed (new_widget s)"
    by simp_all
  have a0: "current_player ?s0 = None \<or> album_art (new_widget s) \<noteq> None"
    using art by auto
  from setup_metadata_frame[OF h0 a0] obtain s' wd' where
    r: "setup_metadata ?n ?s0 = Inr s'" "heap s' = (heap ?s0)(?n \<mapsto> wd')" "\<not> destroyed wd'"
      "album_art (new_widget s) \<noteq> None \<longrightarrow> album_art wd' \<noteq> None" "module_data s' = module_data ?s0"
      "current_player s' = current_player ?s0" "art_size s' = art_size ?s0"
      "show_hidden s' = show_hidden ?s0" "next_addr s' = next_addr ?s0"
    by blast
  let ?s1 = "s'\<lparr>module_data := (module_data s')(w \<mapsto> ?n)\<rparr>"
  have run: "(case module_data s w of
        Some a \<Rightarrow> then_do (setup_metadata a s) (\<lambda>s1. Inr (a, s1))
      | None \<Rightarrow> setup_playerctl w s) = Inr (?n, ?s1)"
    using None r(1) by (simp add: setup_playerctl_def)
  have hp: "heap ?s1 = (heap s)(?n \<mapsto> wd')"
    using r(2) by simp
  have art': "art_size s = 0 \<or> album_art wd' \<noteq> None"
    using r(4) by auto
  have md: "module_data ?s1 = (module_data s)(w \<mapsto> ?n)"
    using r(5) by simp
  have others: "\<forall>ow. ow \<noteq> w \<longrightarrow> module_data s ow \<noteq> Some ?n"
    using ok unfolding state_ok_def by (metis less_irrefl)
  have lt: "?n < next_addr ?s1" "next_addr s \<le> next_addr ?s1"
    using r(9) by simp_all
  have rest: "current_player ?s1 = current_player s" "art_size ?s1 = art_size s"
    "show_hidden ?s1 = show_hidden s"
    using r(6,7,8) by simp_all
  from run hp r(3) art' md others lt rest show ?thesis
    by (intro exI[of _ ?n] exI[of _ ?s1] exI[of _ wd'] conjI)
qed

subsection \<open>The states of the concrete run\<close>

lemmas run_defs = setup_metadata_def setup_playback_def setup_album_art_def setup_button_sensitive_def
  setup_button_sensitive_handler_def setup_playerctl_def on_focus_change_def player_vanished_def
  on_window_destroy_def on_activation_def initial_state_def
  emit_def g_warning_def deref_def store_def gtk_revealer_set_reveal_child_def
  gtk_widget_show_all_def gtk_widget_destroy_revealer_def gtk_image_set_def
  add_label_def clear_labels_def g_timeout_add_seconds_def G_SOURCE_REMOVE_def G_SOURCE_CONTINUE_def
  new_widget_def g_malloc_widget_def warn_position_def attach_revealer_def position_halign_def
  position_valign_def position_unknown_def present_def demo_player_def demo_connect_def focus_on_def
  g_uri_peek_scheme_def g_ascii_isalpha_def g_ascii_isdigit_def scheme_char_def g_ascii_tolower_def
  demo_widget_def

lemma run_activated_val:
  "run_activated =
     \<lparr>self_id = 0, player_manager = True, current_player = Some demo_player, soup_session = True,
      art_size = 64, position = ''top-center'', show_hidden = False,
      heap = Map.empty, next_addr = 0, module_data = Map.empty, timeouts = [],
      trace = [G_signal_connect ''player-appeared'', G_signal_connect ''player-vanished'',
               Manage_player ''mpv'', G_signal_connect ''name-appeared'']\<rparr>"
  by (simp add: run_activated_def run_defs)

lemma run_focus0_val:
  "run_focus0 =
     \<lparr>self_id = 0, player_manager = True, current_player = Some demo_player, soup_session = True,
      art_size = 64, position = ''top-center'', show_hidden = False,
      heap = [0 \<mapsto> demo_widget True], next_addr = 1, module_data = [0 \<mapsto> 0], timeouts = [(1, 0)],
      trace = [G_signal_connect ''player-appeared'', G_signal_connect ''player-vanished'',
               Manage_player ''mpv'', G_signal_connect ''name-appeared'', Overlay_add 0 0,
               G_file_read_async ''file:///tmp/cover.png'' 0, G_timeout_add_seconds 1 0]\<rparr>"
  by (simp add: run_focus0_def run_activated_def run_defs)

lemma run_focus1_val:
  "run_focus1 =
     \<lparr>self_id = 0, player_manager = True, current_player = Some demo_player, soup_session = True,
      art_size = 64, position = ''top-center'', show_hidden = False,
      heap = [0 \<mapsto> demo_widget False, 1 \<mapsto> demo_widget True], next_addr = 2,
      module_data = [0 \<mapsto> 0, 1 \<mapsto> 1], timeouts = [(1, 0), (1, 1)],
      trace = [G_signal_connect ''player-appeared'', G_signal_connect ''player-vanished'',
               Manage_player ''mpv'', G_signal_connect ''name-appeared'', Overlay_add 0 0,
               G_file_read_async ''file:///tmp/cover.png'' 0, G_timeout_add_seconds 1 0,
               Overlay_add 1 1, G_file_read_async ''file:///tmp/cover.png'' 1,
               G_timeout_add_seconds 1 1]\<rparr>"
  apply (simp add: run_focus1_def run_focus0_val run_defs)
  apply (rule ext)
  apply simp
  done

lemma run_vanished_val:
  "run_vanished =
     \<lparr>self_id = 0, player_manager = True, current_player = None, soup_session = True,
      art_size = 64, position = ''top-center'', show_hidden = False,
      heap = [0 \<mapsto> demo_widget False,
              1 \<mapsto> (demo_widget True)\<lparr>revealer := (revealer (demo_widget True))\<lparr>torn_down := True\<rparr>,
                                        destroyed := True\<rparr>],
      next_addr = 2,
      module_data = [0 \<mapsto> 0], timeouts = [(1, 0), (1, 1)],
      trace = [G_signal_connect ''player-appeared'', G_signal_connect ''player-vanished'',
               Manage_player ''mpv'', G_signal_connect ''name-appeared'', Overlay_add 0 0,
               G_file_read_async ''file:///tmp/cover.png'' 0, G_timeout_add_seconds 1 0,
               Overlay_add 1 1, G_file_read_async ''file:///tmp/cover.png'' 1,
               G_timeout_add_seconds 1 1, Gtk_widget_destroy 1, Store_destroyed 1]\<rparr>"
  by (simp add: run_vanished_def run_focus1_val run_defs)

text \<open>The run is a run of the main loop from the initial state.\<close>

lemma run_reached:
  "deliver_all demo_connect
     [On_activation 0 None [''mpv''], On_focus_change (focus_on 0) (Some 0) None,
      On_focus_change (focus_on 1) (Some 1) (Some 0), Player_vanished (focus_on 1)]
     initial_state = Inr run_vanished"
proof -
  have a: "on_focus_change (focus_on 0) (Some 0) None run_activated = Inr run_focus0"
    unfolding run_focus0_val by (simp add: run_activated_def run_defs)
  have b: "on_focus_change (focus_on 1) (Some 1) (Some 0) run_focus0 = Inr run_focus1"
    unfolding run_focus1_val
    by (simp add: run_focus0_val run_defs) (rule ext, simp)
  have c: "player_vanished (focus_on 1) run_focus1 = Inr run_vanished"
    unfolding run_vanished_val by (simp add: run_focus1_val run_defs)
  show ?thesis
    by (simp only: deliver_all.simps deliver.simps run_activated_def [symmetric] then_do_Inr a b c)
qed

lemma deliver_all_append:
  "deliver_all nf (es @ es') s = then_do (deliver_all nf es s) (deliver_all nf es')"
proof (induction es arbitrary: s)
  case Nil
  then show ?case by simp
next
  case (Cons e es)
  then show ?case by (cases "deliver nf e s") simp_all
qed

lemma state_ok_run_focus0: "state_ok run_focus0"
  by (simp add: state_ok_def run_focus0_val demo_widget_def split: if_splits)

lemma state_ok_run_focus1: "state_ok run_focus1"
  by (simp add: state_ok_def run_focus1_val demo_widget_def split: if_splits)

lemma state_ok_run_vanished: "state_ok run_vanished"
  by (simp add: state_ok_def run_vanished_val demo_widget_def split: if_splits)

section \<open>Invariants of the main loop\<close>

text \<open>A refresh made while a player is tracked reads the art image handle of the struct
  whether or not the handle was ever assigned.\<close>

lemma refresh_without_art_image:
  assumes "heap s a = Some wd" and "\<not> destroyed wd" and "album_art wd = None"
    and "current_player s = Some p"
  shows "setup_metadata a s = Inl (Uninitialised_read a)"
  using assms
  by (simp add: setup_metadata_def setup_playback_live setup_album_art_def gtk_image_set_def)

text \<open>What a refresh and a build have done when they return.\<close>

lemma setup_metadata_returns:
  assumes "setup_metadata b s = Inr s'"
  shows "\<exists>wd wd'. heap s b = Some wd \<and> \<not> destroyed wd \<and> heap s' = (heap s)(b \<mapsto> wd') \<and>
           \<not> destroyed wd' \<and> (album_art wd \<noteq> None \<longrightarrow> album_art wd' \<noteq> None) \<and>
           module_data s' = module_data s \<and> current_player s' = current_player s \<and>
           art_size s' = art_size s \<and> show_hidden s' = show_hidden s \<and>
           next_addr s' = next_addr s"
proof (cases "heap s b")
  case None
  with assms show ?thesis by (simp add: setup_metadata_def)
next
  case (Some wd)
  show ?thesis
  proof (cases "destroyed wd")
    case True
    with assms Some show ?thesis by (simp add: setup_metadata_def)
  next
    case False
    have art: "current_player s = None \<or> album_art wd \<noteq> None"
    proof (rule ccontr)
      assume "\<not> (current_player s = None \<or> album_art wd \<noteq> None)"
      then obtain p where "current_player s = Some p" "album_art wd = None" by auto
      from refresh_without_art_image[OF Some False this(2,1)] assms show False by simp
    qed
    from setup_metadata_frame[OF Some False art] assms Some False show ?thesis
      by auto
  qed
qed

lemma setup_playerctl_returns:
  assumes "setup_playerctl w s = Inr (b, s')"
  shows "(module_data s w = Some b \<and> s' = s) \<or>
         (module_data s w = None \<and> b = next_addr s \<and>
          (\<exists>wd'. heap s' = (heap s)(b \<mapsto> wd') \<and> \<not> destroyed wd' \<and>
             (art_size s = 0 \<or> album_art wd' \<noteq> None)) \<and>
          module_data s' = (module_data s)(w \<mapsto> b) \<and> next_addr s' = Suc b \<and>
          current_player s' = current_player s \<and> art_size s' = art_size s \<and>
          show_hidden s' = show_hidden s)"
proof (cases "module_data s w")
  case (Some a)
  with assms show ?thesis by (simp add: setup_playerctl_def)
next
  case None
  let ?n = "next_addr s"
  let ?s0 = "attach_revealer w ?n (warn_position (g_malloc_widget s))"
  from assms None obtain s1 where
    s1: "setup_metadata ?n ?s0 = Inr s1" and b: "b = ?n"
    and s': "s' = s1\<lparr>module_data := (module_data s1)(w \<mapsto> ?n)\<rparr>"
    by (cases "setup_metadata ?n ?s0") (auto simp add: setup_playerctl_def)
  from setup_metadata_returns[OF s1] obtain wd wd' where
    r: "heap ?s0 ?n = Some wd" "heap s1 = (heap ?s0)(?n \<mapsto> wd')" "\<not> destroyed wd'"
      "album_art wd \<noteq> None \<longrightarrow> album_art wd' \<noteq> None" "module_data s1 = module_data ?s0"
      "current_player s1 = current_player ?s0" "art_size s1 = art_size ?s0"
      "show_hidden s1 = show_hidden ?s0" "next_addr s1 = next_addr ?s0"
    by blast
  from r(1) have wd: "wd = new_widget s" by simp
  have art: "art_size s = 0 \<or> album_art wd' \<noteq> None"
    using r(4) wd by auto
  have hp: "heap s' = (heap s)(b \<mapsto> wd')"
    using r(2) s' b by simp
  from None b hp r(3) art s' r(5-9) show ?thesis
    by auto
qed


text \<open>A retired struct is kept by every event: no event writes to it, frees it or puts
  it back into a slot.\<close>

lemma kept_refl [simp]: "kept a s s"
  by (simp add: kept_def)

lemma kept_trans: "kept a s s1 \<Longrightarrow> kept a s1 s2 \<Longrightarrow> kept a s s2"
  by (auto simp add: kept_def)

lemma retired_kept: "retired a s \<Longrightarrow> kept a s s' \<Longrightarrow> retired a s' \<and> heap s' a = heap s a"
  by (auto simp add: retired_def kept_def)

lemma retired_live_ne: "retired a s \<Longrightarrow> heap s b = Some wd \<Longrightarrow> \<not> destroyed wd \<Longrightarrow> b \<noteq> a"
  by (auto simp add: retired_def)

lemma retired_slot_ne: "retired a s \<Longrightarrow> module_data s w = Some b \<Longrightarrow> b \<noteq> a"
  by (auto simp add: retired_def)

lemma kept_simple [simp]:
  "kept a s (emit e s)" "kept a s (g_warning m s)" "b \<noteq> a \<Longrightarrow> kept a s (store b wd s)"
  "kept a s (s\<lparr>timeouts := ts\<rparr>)" "kept a s (s\<lparr>current_player := cp\<rparr>)"
  "kept a s (play_pause f s)" "kept a s (next_track f s)" "kept a s (previous f s)"
  "kept a s (name_appeared nf n s)" "kept a s (on_activation i fl ns nf s)"
  by (simp_all add: kept_def play_pause_def next_track_def previous_def name_appeared_def
      on_activation_def split: option.split list.split)

lemma kept_setup_metadata:
  assumes "retired a s" and "setup_metadata b s = Inr s'"
  shows "kept a s s'"
proof -
  from setup_metadata_returns[OF assms(2)] obtain wd wd' where
    r: "heap s b = Some wd" "\<not> destroyed wd" "heap s' = (heap s)(b \<mapsto> wd')"
      "module_data s' = module_data s" "next_addr s' = next_addr s"
    by blast
  from retired_live_ne[OF assms(1) r(1,2)] r(3,4,5) show ?thesis
    by (simp add: kept_def)
qed

lemma kept_setup_playerctl:
  assumes "retired a s" and "setup_playerctl w s = Inr (b, s')"
  shows "kept a s s' \<and> b \<noteq> a \<and> module_data s' w = Some b"
proof -
  from setup_playerctl_returns[OF assms(2)] show ?thesis
  proof
    assume "module_data s w = Some b \<and> s' = s"
    with retired_slot_ne[OF assms(1)] show ?thesis by auto
  next
    assume n: "module_data s w = None \<and> b = next_addr s \<and>
          (\<exists>wd'. heap s' = (heap s)(b \<mapsto> wd') \<and> \<not> destroyed wd' \<and>
             (art_size s = 0 \<or> album_art wd' \<noteq> None)) \<and>
          module_data s' = (module_data s)(w \<mapsto> b) \<and> next_addr s' = Suc b \<and>
          current_player s' = current_player s \<and> art_size s' = art_size s \<and>
          show_hidden s' = show_hidden s"
    from assms(1) have "a < next_addr s" by (simp add: retired_def)
    with n show ?thesis by (auto simp add: kept_def)
  qed
qed

lemma kept_ensure:
  assumes "retired a s"
    and "(case module_data s w of
            Some b \<Rightarrow> then_do (setup_metadata b s) (\<lambda>s1. Inr (b, s1))
          | None \<Rightarrow> setup_playerctl w s) = Inr (b, s')"
  shows "kept a s s' \<and> b \<noteq> a \<and> module_data s' w = Some b"
proof (cases "module_data s w")
  case None
  with assms(2) kept_setup_playerctl[OF assms(1)] show ?thesis by simp
next
  case (Some c)
  with assms(2) have r: "setup_metadata b s = Inr s'" "c = b"
    by (cases "setup_metadata c s"; simp)+
  from setup_metadata_returns[OF r(1)] have "module_data s' = module_data s" by blast
  with kept_setup_metadata[OF assms(1) r(1)] retired_slot_ne[OF assms(1)] Some r(2)
  show ?thesis by auto
qed

lemma kept_set_reveal:
  "b \<noteq> a \<Longrightarrow> gtk_revealer_set_reveal_child b v s = Inr s' \<Longrightarrow>
   kept a s s' \<and> module_data s' = module_data s"
  by (cases "heap s b") (auto simp add: gtk_revealer_set_reveal_child_def)

lemma kept_setup_playback:
  "b \<noteq> a \<Longrightarrow> setup_playback b st s = Inr s' \<Longrightarrow> kept a s s'"
  by (cases "heap s b") (auto simp add: setup_playback_def split: if_splits)

lemma retired_struct: "retired a s \<Longrightarrow> \<exists>wd. heap s a = Some wd \<and> destroyed wd"
  by (cases "heap s a") (simp_all add: retired_def)

lemma kept_set_art:
  assumes "retired a s" and "set_art_from_stream strm b s = Inr s'"
  shows "kept a s s'"
proof (cases "b = a")
  case True
  from retired_struct[OF assms(1)] obtain wd where "heap s a = Some wd" "destroyed wd" by blast
  with assms(2) True show ?thesis by (simp add: set_art_from_stream_def)
next
  case False
  with assms(2) show ?thesis
    by (cases "heap s b"; cases strm)
       (auto simp add: set_art_from_stream_def gtk_image_set_def split: if_splits option.splits)
qed

lemma kept_handler:
  assumes "retired a s" and "setup_button_sensitive_handler b s = Inr r"
  shows "kept a s (snd r)"
proof (cases "b = a")
  case True
  from retired_struct[OF assms(1)] obtain wd where "heap s a = Some wd" "destroyed wd" by blast
  with assms(2) True show ?thesis
    by (cases "current_player s") (auto simp add: setup_button_sensitive_handler_def)
next
  case False
  with assms(2) show ?thesis
    by (cases "heap s b"; cases "current_player s")
       (auto simp add: setup_button_sensitive_handler_def split: if_splits)
qed

lemma retired_timeouts [simp]: "retired a (s\<lparr>timeouts := ts\<rparr>) = retired a s"
  by (simp add: retired_def)

lemma kept_step:
  assumes ret: "retired a s" and run: "deliver nf e s = Inr s'"
  shows "kept a s s'"
proof (cases e)
  case (On_activation i f ns)
  with run show ?thesis by auto
next
  case (Name_appeared n)
  with run show ?thesis by auto
next
  case (Properties_changed p)
  with run show ?thesis by (auto split: option.splits)
next
  case (Metadata gl)
  show ?thesis
  proof (cases "focused_window gl")
    case None
    with run Metadata show ?thesis by (simp add: metadata_def)
  next
    case (Some w)
    show ?thesis
    proof (cases "module_data s w")
      case None
      with run Metadata Some obtain r where "setup_playerctl w s = Inr r" "s' = snd r"
        by (cases "setup_playerctl w s") (auto simp add: metadata_def)
      with kept_setup_playerctl[OF ret, of w "fst r" "snd r"] show ?thesis by simp
    next
      case (Some b)
      with run Metadata \<open>focused_window gl = Some w\<close> have "setup_metadata b s = Inr s'"
        by (simp add: metadata_def)
      from kept_setup_metadata[OF ret this] show ?thesis .
    qed
  qed
next
  case (Playback_status st gl)
  show ?thesis
  proof (cases "focused_window gl")
    case None
    with run Playback_status show ?thesis by (simp add: playback_status_def)
  next
    case (Some w)
    with run Playback_status obtain r where
      e: "(case module_data s w of
            Some b \<Rightarrow> then_do (setup_metadata b s) (\<lambda>s1. Inr (b, s1))
          | None \<Rightarrow> setup_playerctl w s) = Inr r"
      and p: "setup_playback (fst r) st (snd r) = Inr s'"
      by (cases "(case module_data s w of
            Some b \<Rightarrow> then_do (setup_metadata b s) (\<lambda>s1. Inr (b, s1))
          | None \<Rightarrow> setup_playerctl w s)") (auto simp add: playback_status_def)
    from kept_ensure[OF ret, of w "fst r" "snd r"] e
    have k: "kept a s (snd r)" "fst r \<noteq> a" by simp_all
    from kept_trans[OF k(1) kept_setup_playback[OF k(2) p]] show ?thesis .
  qed
next
  case (Player_appeared gl)
  show ?thesis
  proof (cases "focused_window gl")
    case None
    with run Player_appeared show ?thesis by (auto simp add: player_appeared_def kept_def)
  next
    case (Some w)
    with run Player_appeared obtain r where r: "setup_playerctl w s = Inr r"
      and s': "s' = emit (G_signal_connect ''playback-status'') (emit (G_signal_connect ''metadata'') (snd r))"
      by (cases "setup_playerctl w s") (auto simp add: player_appeared_def)
    from kept_setup_playerctl[OF ret, of w "fst r" "snd r"] r have "kept a s (snd r)" by simp
    with s' show ?thesis by (simp add: kept_def)
  qed
next
  case (Player_vanished gl)
  show ?thesis
  proof (cases "focused_window gl")
    case None
    with run Player_vanished show ?thesis by (auto simp add: player_vanished_def)
  next
    case (Some w)
    show ?thesis
    proof (cases "module_data s w")
      case None
      with run Player_vanished Some show ?thesis by (auto simp add: player_vanished_def)
    next
      case (Some b)
      from retired_slot_ne[OF ret Some] have ne: "b \<noteq> a" .
      with run Player_vanished \<open>focused_window gl = Some w\<close> Some show ?thesis
        by (cases "heap s b")
           (auto simp add: player_vanished_def gtk_widget_destroy_revealer_def kept_def
              split: if_splits)
    qed
  qed
next
  case (On_focus_change gl win old)
  show ?thesis
  proof (cases win)
    case None
    with run On_focus_change show ?thesis by (simp add: on_focus_change_def)
  next
    case (Some w)
    with run On_focus_change obtain r s2 where
      e: "(case module_data s w of
            Some b \<Rightarrow> then_do (setup_metadata b s) (\<lambda>s1. Inr (b, s1))
          | None \<Rightarrow> setup_playerctl w s) = Inr r"
      and rv: "gtk_revealer_set_reveal_child (fst r) (\<not> hidden gl \<or> show_hidden (snd r)) (snd r) = Inr s2"
      and fin: "(case old of
              None \<Rightarrow> Inr s2
            | Some ow \<Rightarrow>
                if w = ow then Inr s2
                else (case module_data s2 ow of
                        None \<Rightarrow> Inl (Assert_failed ''old_widget'')
                      | Some oa \<Rightarrow> gtk_revealer_set_reveal_child oa False s2)) = Inr s'"
      by (cases "(case module_data s w of
            Some b \<Rightarrow> then_do (setup_metadata b s) (\<lambda>s1. Inr (b, s1))
          | None \<Rightarrow> setup_playerctl w s)";
          cases "gtk_revealer_set_reveal_child
                   (fst (projr (case module_data s w of
                      Some b \<Rightarrow> then_do (setup_metadata b s) (\<lambda>s1. Inr (b, s1))
                    | None \<Rightarrow> setup_playerctl w s)))
                   (\<not> hidden gl \<or> show_hidden (snd (projr (case module_data s w of
                      Some b \<Rightarrow> then_do (setup_metadata b s) (\<lambda>s1. Inr (b, s1))
                    | None \<Rightarrow> setup_playerctl w s))))
                   (snd (projr (case module_data s w of
                      Some b \<Rightarrow> then_do (setup_metadata b s) (\<lambda>s1. Inr (b, s1))
                    | None \<Rightarrow> setup_playerctl w s)))")
         (auto simp add: on_focus_change_def)
    from kept_ensure[OF ret, of w "fst r" "snd r"] e
    have k1: "kept a s (snd r)" "fst r \<noteq> a" by simp_all
    from retired_kept[OF ret k1(1)] have ret1: "retired a (snd r)" by simp
    from kept_set_reveal[OF k1(2) rv] have k2: "kept a (snd r) s2" "module_data s2 = module_data (snd r)"
      by simp_all
    from retired_kept[OF ret1 k2(1)] have ret2: "retired a s2" by simp
    have k3: "kept a s2 s'"
    proof (cases old)
      case None
      with fin show ?thesis by simp
    next
      case (Some ow)
      show ?thesis
      proof (cases "w = ow")
        case True
        with fin Some show ?thesis by simp
      next
        case False
        show ?thesis
        proof (cases "module_data s2 ow")
          case None
          with fin Some False show ?thesis by simp
        next
          case (Some oa)
          from retired_slot_ne[OF ret2 Some] have "oa \<noteq> a" .
          from kept_set_reveal[OF this] fin \<open>old = Some ow\<close> False Some show ?thesis by simp
        qed
      qed
    qed
    from kept_trans[OF kept_trans[OF k1(1) k2(1)] k3] show ?thesis .
  qed
next
  case (On_window_destroy gl ctx)
  show ?thesis
  proof (cases ctx)
    case None
    with run On_window_destroy show ?thesis by (simp add: on_window_destroy_def)
  next
    case (Some w)
    show ?thesis
    proof (cases "module_data s w")
      case None
      with run On_window_destroy Some show ?thesis by (auto simp add: on_window_destroy_def)
    next
      case (Some b)
      from retired_slot_ne[OF ret Some] have ne: "b \<noteq> a" .
      with run On_window_destroy \<open>ctx = Some w\<close> Some show ?thesis
        by (cases "heap s b")
           (auto simp add: on_window_destroy_def gtk_widget_destroy_revealer_def kept_def
              split: if_splits)
    qed
  qed
next
  case (On_idle_hide gl)
  show ?thesis
  proof (cases "focused_window gl")
    case None
    with run On_idle_hide show ?thesis by (simp add: on_idle_hide_def)
  next
    case (Some w)
    show ?thesis
    proof (cases "module_data s w")
      case None
      with run On_idle_hide Some show ?thesis by (simp add: on_idle_hide_def)
    next
      case (Some b)
      from retired_slot_ne[OF ret Some] have ne: "b \<noteq> a" .
      from kept_set_reveal[OF ne] run On_idle_hide \<open>focused_window gl = Some w\<close> Some
      show ?thesis by (simp add: on_idle_hide_def)
    qed
  qed
next
  case (On_idle_show gl)
  show ?thesis
  proof (cases "focused_window gl")
    case None
    with run On_idle_show show ?thesis by (simp add: on_idle_show_def)
  next
    case (Some w)
    show ?thesis
    proof (cases "module_data s w")
      case None
      with run On_idle_show Some show ?thesis by (simp add: on_idle_show_def)
    next
      case (Some b)
      from retired_slot_ne[OF ret Some] have ne: "b \<noteq> a" .
      from kept_set_reveal[OF ne] run On_idle_show \<open>focused_window gl = Some w\<close> Some
      show ?thesis by (simp add: on_idle_show_def)
    qed
  qed
next
  case (File_done res b)
  with run kept_set_art[OF ret] show ?thesis
    by (cases res) (auto simp add: file_callback_def)
next
  case (Request_done res b)
  with run kept_set_art[OF ret] show ?thesis
    by (cases res) (auto simp add: request_callback_def)
next
  case Timeout_due
  show ?thesis
  proof (cases "timeouts s")
    case Nil
    with run Timeout_due show ?thesis by (simp add: g_timeout_dispatch_def)
  next
    case (Cons t rest)
    with run Timeout_due obtain r where
      h: "setup_button_sensitive_handler (snd t) (s\<lparr>timeouts := rest\<rparr>) = Inr r"
      and s': "s' = (if fst r = G_SOURCE_CONTINUE then (snd r)\<lparr>timeouts := timeouts (snd r) @ [t]\<rparr>
                    else snd r)"
      by (cases "setup_button_sensitive_handler (snd t) (s\<lparr>timeouts := rest\<rparr>)")
         (auto simp add: g_timeout_dispatch_def split: if_splits)
    have "retired a (s\<lparr>timeouts := rest\<rparr>)" using ret by simp
    from kept_handler[OF this h] have "kept a (s\<lparr>timeouts := rest\<rparr>) (snd r)" .
    with s' show ?thesis by (auto simp add: kept_def)
  qed
next
  case (Play_pause_clicked f)
  with run show ?thesis by auto
next
  case (Next_clicked f)
  with run show ?thesis by auto
next
  case (Previous_clicked f)
  with run show ?thesis by auto
qed

lemma retired_deliver_all:
  "retired a s \<Longrightarrow> deliver_all nf es s = Inr s' \<Longrightarrow> retired a s' \<and> heap s' a = heap s a"
proof (induction es arbitrary: s)
  case Nil
  then show ?case by simp
next
  case (Cons e es)
  from Cons.prems(2) obtain s1 where
    s1: "deliver nf e s = Inr s1" and rest: "deliver_all nf es s1 = Inr s'"
    by (cases "deliver nf e s") auto
  from retired_kept[OF Cons.prems(1) kept_step[OF Cons.prems(1) s1]]
  have "retired a s1" "heap s1 a = heap s a" by simp_all
  with Cons.IH[OF this(1) rest] show ?case by simp
qed


text \<open>Every event keeps slots and store consistent, so every state the module reaches
  from its start is consistent.\<close>

lemma state_ok_cong:
  "module_data s' = module_data s \<Longrightarrow> heap s' = heap s \<Longrightarrow> next_addr s' = next_addr s \<Longrightarrow>
   art_size s' = art_size s \<Longrightarrow> state_ok s' = state_ok s"
  by (simp add: state_ok_def)

lemma state_ok_simple [simp]:
  "state_ok (emit e s) = state_ok s" "state_ok (g_warning m s) = state_ok s"
  "state_ok (s\<lparr>timeouts := ts\<rparr>) = state_ok s" "state_ok (s\<lparr>current_player := cp\<rparr>) = state_ok s"
  "state_ok (play_pause f s) = state_ok s" "state_ok (next_track f s) = state_ok s"
  "state_ok (previous f s) = state_ok s"
  "state_ok (name_appeared nf n s) = state_ok s" "state_ok (on_activation i fl ns nf s) = state_ok s"
  by (rule state_ok_cong;
      simp add: play_pause_def next_track_def previous_def name_appeared_def
        on_activation_def split: option.split list.split)+

lemma state_ok_store:
  assumes "state_ok s" and "heap s b = Some wd" and "destroyed wd' \<longrightarrow> destroyed wd"
    and "album_art wd \<noteq> None \<longrightarrow> album_art wd' \<noteq> None"
  shows "state_ok (store b wd' s)"
  unfolding state_ok_def
proof (intro allI impI)
  fix w a
  assume m: "module_data (store b wd' s) w = Some a"
  then have m': "module_data s w = Some a" by simp
  with assms(1) obtain d where d: "a < next_addr s" "heap s a = Some d" "\<not> destroyed d"
    "art_size s = 0 \<or> album_art d \<noteq> None" and u: "\<forall>w'. module_data s w' = Some a \<longrightarrow> w' = w"
    unfolding state_ok_def by blast
  show "a < next_addr (store b wd' s) \<and>
        (\<exists>wd. heap (store b wd' s) a = Some wd \<and> \<not> destroyed wd \<and>
           (art_size (store b wd' s) = 0 \<or> album_art wd \<noteq> None)) \<and>
        (\<forall>w'. module_data (store b wd' s) w' = Some a \<longrightarrow> w' = w)"
  proof (cases "a = b")
    case True
    with d assms(2,3,4) u show ?thesis by auto
  next
    case False
    with d u show ?thesis by auto
  qed
qed

lemma state_ok_setup_metadata:
  assumes "state_ok s" and "setup_metadata b s = Inr s'"
  shows "state_ok s'"
proof -
  from setup_metadata_returns[OF assms(2)] obtain wd wd' where
    r: "heap s b = Some wd" "\<not> destroyed wd'" "heap s' = (heap s)(b \<mapsto> wd')"
      "album_art wd \<noteq> None \<longrightarrow> album_art wd' \<noteq> None"
      "module_data s' = module_data s" "next_addr s' = next_addr s" "art_size s' = art_size s"
    by blast
  from r(2) have "destroyed wd' \<longrightarrow> destroyed wd" by simp
  from state_ok_store[OF assms(1) r(1) this r(4)] have "state_ok (store b wd' s)" .
  moreover have "state_ok s' = state_ok (store b wd' s)"
    by (rule state_ok_cong) (simp_all add: r)
  ultimately show ?thesis by simp
qed

lemma state_ok_alloc:
  assumes ok: "state_ok s" and "module_data s w = None"
    and "heap s' = (heap s)(next_addr s \<mapsto> wd')" and "\<not> destroyed wd'"
    and "art_size s = 0 \<or> album_art wd' \<noteq> None"
    and "module_data s' = (module_data s)(w \<mapsto> next_addr s)"
    and "next_addr s' = Suc (next_addr s)" and "art_size s' = art_size s"
  shows "state_ok s'"
  unfolding state_ok_def
proof (intro allI impI)
  fix v a
  assume m: "module_data s' v = Some a"
  have fresh: "\<forall>u. module_data s u \<noteq> Some (next_addr s)"
    using ok unfolding state_ok_def by (metis less_irrefl)
  show "a < next_addr s' \<and>
        (\<exists>wd. heap s' a = Some wd \<and> \<not> destroyed wd \<and> (art_size s' = 0 \<or> album_art wd \<noteq> None)) \<and>
        (\<forall>w'. module_data s' w' = Some a \<longrightarrow> w' = v)"
  proof (cases "v = w")
    case True
    with m assms(6) have a: "a = next_addr s" by simp
    with assms(3-8) fresh True show ?thesis by auto
  next
    case False
    with m assms(6) have m': "module_data s v = Some a" by simp
    with ok obtain d where d: "a < next_addr s" "heap s a = Some d" "\<not> destroyed d"
      "art_size s = 0 \<or> album_art d \<noteq> None" and u: "\<forall>w'. module_data s w' = Some a \<longrightarrow> w' = v"
      unfolding state_ok_def by blast
    from d(1) have "a \<noteq> next_addr s" by simp
    with d u assms(3,6,7,8) show ?thesis by auto
  qed
qed

lemma state_ok_setup_playerctl:
  assumes "state_ok s" and "setup_playerctl w s = Inr (b, s')"
  shows "state_ok s' \<and> module_data s' w = Some b"
proof -
  from setup_playerctl_returns[OF assms(2)] show ?thesis
  proof
    assume "module_data s w = Some b \<and> s' = s"
    with assms(1) show ?thesis by simp
  next
    assume n: "module_data s w = None \<and> b = next_addr s \<and>
          (\<exists>wd'. heap s' = (heap s)(b \<mapsto> wd') \<and> \<not> destroyed wd' \<and>
             (art_size s = 0 \<or> album_art wd' \<noteq> None)) \<and>
          module_data s' = (module_data s)(w \<mapsto> b) \<and> next_addr s' = Suc b \<and>
          current_player s' = current_player s \<and> art_size s' = art_size s \<and>
          show_hidden s' = show_hidden s"
    then obtain wd' where h: "heap s' = (heap s)(next_addr s \<mapsto> wd')" "\<not> destroyed wd'"
      "art_size s = 0 \<or> album_art wd' \<noteq> None" by blast
    from n have m: "module_data s w = None" "module_data s' = (module_data s)(w \<mapsto> next_addr s)"
      "next_addr s' = Suc (next_addr s)" "art_size s' = art_size s" "b = next_addr s"
      by simp_all
    from state_ok_alloc[OF assms(1) m(1) h m(2,3,4)] m(2,5) show ?thesis by simp
  qed
qed

lemma state_ok_ensure:
  assumes "state_ok s"
    and "(case module_data s w of
            Some b \<Rightarrow> then_do (setup_metadata b s) (\<lambda>s1. Inr (b, s1))
          | None \<Rightarrow> setup_playerctl w s) = Inr (b, s')"
  shows "state_ok s' \<and> module_data s' w = Some b"
proof (cases "module_data s w")
  case None
  with assms(2) state_ok_setup_playerctl[OF assms(1)] show ?thesis by simp
next
  case (Some c)
  with assms(2) have r: "setup_metadata b s = Inr s'" "c = b"
    by (cases "setup_metadata c s"; simp)+
  from setup_metadata_returns[OF r(1)] have "module_data s' = module_data s" by blast
  with state_ok_setup_metadata[OF assms(1) r(1)] Some r(2) show ?thesis by simp
qed

lemma state_ok_store_same:
  "state_ok s \<Longrightarrow> heap s b = Some wd \<Longrightarrow> destroyed wd' = destroyed wd \<Longrightarrow>
   album_art wd \<noteq> None \<longrightarrow> album_art wd' \<noteq> None \<Longrightarrow> state_ok (store b wd' s)"
  by (rule state_ok_store) simp_all

lemma state_ok_set_reveal:
  assumes "state_ok s" and "gtk_revealer_set_reveal_child b v s = Inr s'"
  shows "state_ok s' \<and> module_data s' = module_data s"
proof (cases "heap s b")
  case None
  with assms(2) show ?thesis by (simp add: gtk_revealer_set_reveal_child_def)
next
  case (Some wd)
  with assms(2) have "s' = store b (wd\<lparr>revealer := (revealer wd)\<lparr>reveal_child := v\<rparr>\<rparr>) s"
    by (simp add: gtk_revealer_set_reveal_child_def)
  with state_ok_store_same[OF assms(1) Some, of "wd\<lparr>revealer := (revealer wd)\<lparr>reveal_child := v\<rparr>\<rparr>"]
  show ?thesis by simp
qed

lemma state_ok_setup_playback:
  assumes "state_ok s" and "setup_playback b st s = Inr s'"
  shows "state_ok s'"
proof (cases "heap s b")
  case None
  with assms(2) show ?thesis by (simp add: setup_playback_def)
next
  case (Some wd)
  let ?wd' = "wd\<lparr>play_pause_button := (play_pause_button wd)\<lparr>button_image :=
            Some (if st = PLAYERCTL_PLAYBACK_STATUS_PLAYING then ''media-playback-pause-symbolic''
                  else ''media-playback-start-symbolic'')\<rparr>\<rparr>"
  from assms(2) Some have "s' = store b ?wd' s"
    by (simp add: setup_playback_def split: if_splits)
  with state_ok_store_same[OF assms(1) Some, of ?wd'] show ?thesis by simp
qed

lemma state_ok_set_art:
  assumes "state_ok s" and "set_art_from_stream strm b s = Inr s'"
  shows "state_ok s'"
proof (cases "heap s b")
  case None
  with assms(2) show ?thesis by (simp add: set_art_from_stream_def)
next
  case (Some wd)
  show ?thesis
  proof (cases "destroyed wd")
    case True
    with assms Some show ?thesis by (simp add: set_art_from_stream_def)
  next
    case False
    show ?thesis
    proof (cases strm)
      case (Inl msg)
      with assms Some False show ?thesis by (auto simp add: set_art_from_stream_def)
    next
      case (Inr d)
      with assms(2) Some False have "s' = store b (wd\<lparr>album_art := Some (Pixbuf d (art_size s))\<rparr>) s"
        by (simp add: set_art_from_stream_def gtk_image_set_def split: option.splits)
      with state_ok_store_same[OF assms(1) Some, of "wd\<lparr>album_art := Some (Pixbuf d (art_size s))\<rparr>"]
      show ?thesis by simp
    qed
  qed
qed

lemma state_ok_handler:
  assumes "state_ok s" and "setup_button_sensitive_handler b s = Inr r"
  shows "state_ok (snd r)"
proof (cases "current_player s")
  case None
  with assms show ?thesis by (auto simp add: setup_button_sensitive_handler_def)
next
  case (Some p)
  show ?thesis
  proof (cases "heap s b")
    case None
    with assms(2) Some show ?thesis by (simp add: setup_button_sensitive_handler_def)
  next
    case (Some wd)
    let ?wd' = "wd\<lparr>previous_button := (previous_button wd)\<lparr>sensitive := can_go_previous p\<rparr>,
                  play_pause_button := (play_pause_button wd)\<lparr>sensitive := can_pause p\<rparr>,
                  next_button := (next_button wd)\<lparr>sensitive := can_go_next p\<rparr>\<rparr>"
    from assms(2) Some \<open>current_player s = Some p\<close>
    have "snd r = s \<or> snd r = store b ?wd' s"
      by (auto simp add: setup_button_sensitive_handler_def split: if_splits)
    with assms(1) state_ok_store_same[OF assms(1) Some, of ?wd'] show ?thesis by auto
  qed
qed

lemma state_ok_unmap:
  assumes ok: "state_ok s" and "module_data s w = Some b"
    and "module_data s' = (module_data s)(w := None)"
    and "\<forall>c. c \<noteq> b \<longrightarrow> heap s' c = heap s c"
    and "next_addr s' = next_addr s" and "art_size s' = art_size s"
  shows "state_ok s'"
  unfolding state_ok_def
proof (intro allI impI)
  fix v a
  assume m: "module_data s' v = Some a"
  with assms(3) have vw: "v \<noteq> w" and m': "module_data s v = Some a"
    by (auto split: if_splits)
  with ok obtain d where d: "a < next_addr s" "heap s a = Some d" "\<not> destroyed d"
    "art_size s = 0 \<or> album_art d \<noteq> None" and u: "\<forall>w'. module_data s w' = Some a \<longrightarrow> w' = v"
    unfolding state_ok_def by blast
  from u assms(2) vw have "a \<noteq> b" by auto
  with d u assms(3-6) show "a < next_addr s' \<and>
        (\<exists>wd. heap s' a = Some wd \<and> \<not> destroyed wd \<and> (art_size s' = 0 \<or> album_art wd \<noteq> None)) \<and>
        (\<forall>w'. module_data s' w' = Some a \<longrightarrow> w' = v)"
    by (auto split: if_splits)
qed


lemma state_ok_step:
  assumes ok: "state_ok s" and run: "deliver nf e s = Inr s'"
  shows "state_ok s'"
proof (cases e)
  case (On_activation i f ns)
  with run ok show ?thesis by auto
next
  case (Name_appeared n)
  with run ok show ?thesis by auto
next
  case (Properties_changed p)
  with run ok show ?thesis by (auto split: option.splits)
next
  case (Metadata gl)
  show ?thesis
  proof (cases "focused_window gl")
    case None
    with run Metadata ok show ?thesis by (simp add: metadata_def)
  next
    case (Some w)
    show ?thesis
    proof (cases "module_data s w")
      case None
      with run Metadata Some obtain r where "setup_playerctl w s = Inr r" "s' = snd r"
        by (cases "setup_playerctl w s") (auto simp add: metadata_def)
      with state_ok_setup_playerctl[OF ok, of w "fst r" "snd r"] show ?thesis by simp
    next
      case (Some b)
      with run Metadata \<open>focused_window gl = Some w\<close> have "setup_metadata b s = Inr s'"
        by (simp add: metadata_def)
      from state_ok_setup_metadata[OF ok this] show ?thesis .
    qed
  qed
next
  case (Playback_status st gl)
  show ?thesis
  proof (cases "focused_window gl")
    case None
    with run Playback_status ok show ?thesis by (simp add: playback_status_def)
  next
    case (Some w)
    with run Playback_status obtain r where
      e: "(case module_data s w of
            Some b \<Rightarrow> then_do (setup_metadata b s) (\<lambda>s1. Inr (b, s1))
          | None \<Rightarrow> setup_playerctl w s) = Inr r"
      and p: "setup_playback (fst r) st (snd r) = Inr s'"
      by (cases "(case module_data s w of
            Some b \<Rightarrow> then_do (setup_metadata b s) (\<lambda>s1. Inr (b, s1))
          | None \<Rightarrow> setup_playerctl w s)") (auto simp add: playback_status_def)
    from state_ok_ensure[OF ok, of w "fst r" "snd r"] e have "state_ok (snd r)" by simp
    from state_ok_setup_playback[OF this p] show ?thesis .
  qed
next
  case (Player_appeared gl)
  show ?thesis
  proof (cases "focused_window gl")
    case None
    with run Player_appeared ok show ?thesis by (auto simp add: player_appeared_def)
  next
    case (Some w)
    with run Player_appeared obtain r where r: "setup_playerctl w s = Inr r"
      and s': "s' = emit (G_signal_connect ''playback-status'') (emit (G_signal_connect ''metadata'') (snd r))"
      by (cases "setup_playerctl w s") (auto simp add: player_appeared_def)
    from state_ok_setup_playerctl[OF ok, of w "fst r" "snd r"] r have "state_ok (snd r)" by simp
    with s' show ?thesis by simp
  qed
next
  case (Player_vanished gl)
  show ?thesis
  proof (cases "focused_window gl")
    case None
    with run Player_vanished ok show ?thesis by (auto simp add: player_vanished_def)
  next
    case (Some w)
    show ?thesis
    proof (cases "module_data s w")
      case None
      with run Player_vanished Some ok show ?thesis by (auto simp add: player_vanished_def)
    next
      case (Some b)
      with run Player_vanished \<open>focused_window gl = Some w\<close>
      have "module_data s' = (module_data s)(w := None) \<and> (\<forall>c. c \<noteq> b \<longrightarrow> heap s' c = heap s c) \<and>
          next_addr s' = next_addr s \<and> art_size s' = art_size s"
        by (cases "heap s b") (auto simp add: player_vanished_def gtk_widget_destroy_revealer_def)
      with state_ok_unmap[OF ok Some, of s'] show ?thesis by simp
    qed
  qed
next
  case (On_focus_change gl win old)
  show ?thesis
  proof (cases win)
    case None
    with run On_focus_change show ?thesis by (simp add: on_focus_change_def)
  next
    case (Some w)
    with run On_focus_change obtain r s2 where
      e: "(case module_data s w of
            Some b \<Rightarrow> then_do (setup_metadata b s) (\<lambda>s1. Inr (b, s1))
          | None \<Rightarrow> setup_playerctl w s) = Inr r"
      and rv: "gtk_revealer_set_reveal_child (fst r) (\<not> hidden gl \<or> show_hidden (snd r)) (snd r) = Inr s2"
      and fin: "(case old of
              None \<Rightarrow> Inr s2
            | Some ow \<Rightarrow>
                if w = ow then Inr s2
                else (case module_data s2 ow of
                        None \<Rightarrow> Inl (Assert_failed ''old_widget'')
                      | Some oa \<Rightarrow> gtk_revealer_set_reveal_child oa False s2)) = Inr s'"
      by (cases "(case module_data s w of
            Some b \<Rightarrow> then_do (setup_metadata b s) (\<lambda>s1. Inr (b, s1))
          | None \<Rightarrow> setup_playerctl w s)";
          cases "gtk_revealer_set_reveal_child
                   (fst (projr (case module_data s w of
                      Some b \<Rightarrow> then_do (setup_metadata b s) (\<lambda>s1. Inr (b, s1))
                    | None \<Rightarrow> setup_playerctl w s)))
                   (\<not> hidden gl \<or> show_hidden (snd (projr (case module_data s w of
                      Some b \<Rightarrow> then_do (setup_metadata b s) (\<lambda>s1. Inr (b, s1))
                    | None \<Rightarrow> setup_playerctl w s))))
                   (snd (projr (case module_data s w of
                      Some b \<Rightarrow> then_do (setup_metadata b s) (\<lambda>s1. Inr (b, s1))
                    | None \<Rightarrow> setup_playerctl w s)))")
         (auto simp add: on_focus_change_def)
    from state_ok_ensure[OF ok, of w "fst r" "snd r"] e have ok1: "state_ok (snd r)" by simp
    from state_ok_set_reveal[OF ok1 rv] have ok2: "state_ok s2" by simp
    show ?thesis
    proof (cases old)
      case None
      with fin ok2 show ?thesis by simp
    next
      case (Some ow)
      show ?thesis
      proof (cases "w = ow")
        case True
        with fin Some ok2 show ?thesis by simp
      next
        case False
        show ?thesis
        proof (cases "module_data s2 ow")
          case None
          with fin Some False show ?thesis by simp
        next
          case (Some oa)
          from state_ok_set_reveal[OF ok2] fin \<open>old = Some ow\<close> False Some show ?thesis by simp
        qed
      qed
    qed
  qed
next
  case (On_window_destroy gl ctx)
  show ?thesis
  proof (cases ctx)
    case None
    with run On_window_destroy show ?thesis by (simp add: on_window_destroy_def)
  next
    case (Some w)
    show ?thesis
    proof (cases "module_data s w")
      case None
      with run On_window_destroy Some ok show ?thesis by (auto simp add: on_window_destroy_def)
    next
      case (Some b)
      with run On_window_destroy \<open>ctx = Some w\<close>
      have "module_data s' = (module_data s)(w := None) \<and> (\<forall>c. c \<noteq> b \<longrightarrow> heap s' c = heap s c) \<and>
          next_addr s' = next_addr s \<and> art_size s' = art_size s"
        by (cases "heap s b") (auto simp add: on_window_destroy_def gtk_widget_destroy_revealer_def)
      with state_ok_unmap[OF ok Some, of s'] show ?thesis by simp
    qed
  qed
next
  case (On_idle_hide gl)
  show ?thesis
  proof (cases "focused_window gl")
    case None
    with run On_idle_hide ok show ?thesis by (simp add: on_idle_hide_def)
  next
    case (Some w)
    show ?thesis
    proof (cases "module_data s w")
      case None
      with run On_idle_hide Some ok show ?thesis by (simp add: on_idle_hide_def)
    next
      case (Some b)
      from state_ok_set_reveal[OF ok] run On_idle_hide \<open>focused_window gl = Some w\<close> Some
      show ?thesis by (simp add: on_idle_hide_def)
    qed
  qed
next
  case (On_idle_show gl)
  show ?thesis
  proof (cases "focused_window gl")
    case None
    with run On_idle_show ok show ?thesis by (simp add: on_idle_show_def)
  next
    case (Some w)
    show ?thesis
    proof (cases "module_data s w")
      case None
      with run On_idle_show Some ok show ?thesis by (simp add: on_idle_show_def)
    next
      case (Some b)
      from state_ok_set_reveal[OF ok] run On_idle_show \<open>focused_window gl = Some w\<close> Some
      show ?thesis by (simp add: on_idle_show_def)
    qed
  qed
next
  case (File_done res b)
  with run ok state_ok_set_art[OF ok] show ?thesis
    by (cases res) (auto simp add: file_callback_def)
next
  case (Request_done res b)
  with run ok state_ok_set_art[OF ok] show ?thesis
    by (cases res) (auto simp add: request_callback_def)
next
  case Timeout_due
  show ?thesis
  proof (cases "timeouts s")
    case Nil
    with run Timeout_due ok show ?thesis by (simp add: g_timeout_dispatch_def)
  next
    case (Cons t rest)
    with run Timeout_due obtain r where
      h: "setup_button_sensitive_handler (snd t) (s\<lparr>timeouts := rest\<rparr>) = Inr r"
      and s': "s' = (if fst r = G_SOURCE_CONTINUE then (snd r)\<lparr>timeouts := timeouts (snd r) @ [t]\<rparr>
                    else snd r)"
      by (cases "setup_button_sensitive_handler (snd t) (s\<lparr>timeouts := rest\<rparr>)")
         (auto simp add: g_timeout_dispatch_def split: if_splits)
    have "state_ok (s\<lparr>timeouts := rest\<rparr>)" using ok by simp
    from state_ok_handler[OF this h] have "state_ok (snd r)" .
    with s' show ?thesis by auto
  qed
next
  case (Play_pause_clicked f)
  with run ok show ?thesis by auto
next
  case (Next_clicked f)
  with run ok show ?thesis by auto
next
  case (Previous_clicked f)
  with run ok show ?thesis by auto
qed

lemma state_ok_no_slots: "module_data s = Map.empty \<Longrightarrow> state_ok s"
  by (simp add: state_ok_def)

lemma state_ok_initial: "state_ok initial_state"
  by (rule state_ok_no_slots) (simp add: initial_state_def)

lemma state_ok_deliver_all:
  "state_ok s \<Longrightarrow> deliver_all nf es s = Inr s' \<Longrightarrow> state_ok s'"
proof (induction es arbitrary: s)
  case Nil
  then show ?case by simp
next
  case (Cons e es)
  from Cons.prems(2) obtain s1 where
    s1: "deliver nf e s = Inr s1" and rest: "deliver_all nf es s1 = Inr s'"
    by (cases "deliver nf e s") auto
  from Cons.IH[OF state_ok_step[OF Cons.prems(1) s1] rest] show ?case .
qed

section \<open>Player commands: failures and the log\<close>

text \<open>
  C8. A failure of \<^verbatim>\<open>play_pause\<close> is logged with a warning. A failure of \<^verbatim>\<open>next\<close> or of
  \<^verbatim>\<open>previous\<close> leaves no warning: the command is issued and nothing else is recorded,
  because both handlers pass \<^verbatim>\<open>NULL\<close> where \<^verbatim>\<open>play_pause\<close> passes \<^verbatim>\<open>&error\<close>.
\<close>

theorem next_previous_failure_not_logged:
  "trace (next_track (Some msg) s) = trace s @ [Player_command ''next''] \<and>
   trace (previous (Some msg) s) = trace s @ [Player_command ''previous''] \<and>
   trace (play_pause (Some msg) s) =
     trace s @ [Player_command ''play_pause'', G_warning (''Failed play_pause: '' @ msg)]"
  by (simp add: next_track_def previous_def play_pause_def)

section \<open>The player session tracker\<close>

text \<open>
  C2. The tracker is a machine over \<open>NoPlayer\<close> and \<open>HasPlayer\<close>, starting in \<open>NoPlayer\<close>.
  Activation with no enumerated player (or with a failed manager) leaves \<open>NoPlayer\<close> as it
  is. The first enumerated name at activation, and a name-appeared event received in
  \<open>NoPlayer\<close>, make the player that the library hands back for that name the tracked one.
  A name-appeared event received in \<open>HasPlayer\<close> changes nothing at all. A
  player-vanished event always ends in \<open>NoPlayer\<close>, whatever the focus and the state
  before, and it does return on every consistent state.
\<close>

theorem player_session_tracker:
  "session_of initial_state = NoPlayer \<and>
   (session_of s = NoPlayer \<longrightarrow> session_of (on_activation i failure [] nf s) = NoPlayer) \<and>
   (session_of s = NoPlayer \<longrightarrow> session_of (on_activation i (Some msg) names nf s) = NoPlayer) \<and>
   (nf n = Some p \<longrightarrow>
      current_player (on_activation i None (n # ns) nf s) = Some p \<and>
      session_of (on_activation i None (n # ns) nf s) = HasPlayer) \<and>
   (session_of s = NoPlayer \<longrightarrow> nf n = Some p \<longrightarrow>
      current_player (name_appeared nf n s) = Some p \<and>
      session_of (name_appeared nf n s) = HasPlayer) \<and>
   (session_of s = HasPlayer \<longrightarrow> name_appeared nf n s = s) \<and>
   (\<forall>s'. player_vanished gl s = Inr s' \<longrightarrow> session_of s' = NoPlayer) \<and>
   (state_ok s \<longrightarrow> (\<exists>s'. player_vanished gl s = Inr s'))"
proof -
  have a: "session_of initial_state = NoPlayer"
    by (simp add: session_of_def initial_state_def)
  have b: "current_player (on_activation i failure [] nf s) = current_player s"
    by (simp add: on_activation_def split: option.split)
  have c: "current_player (on_activation i (Some msg) names nf s) = current_player s"
    by (simp add: on_activation_def)
  have d: "current_player (on_activation i None (n # ns) nf s) = nf n"
    by (simp add: on_activation_def)
  have e: "current_player s = None \<Longrightarrow> current_player (name_appeared nf n s) = nf n"
    by (simp add: name_appeared_def)
  have f: "session_of s = HasPlayer \<Longrightarrow> name_appeared nf n s = s"
    by (simp add: name_appeared_def session_of_def split: option.splits)
  have g: "\<And>s'. player_vanished gl s = Inr s' \<Longrightarrow> current_player s' = None"
    by (auto simp add: player_vanished_def gtk_widget_destroy_revealer_def deref_def
        then_do_def split: option.splits sum.splits)
  have h: "state_ok s \<Longrightarrow> \<exists>s'. player_vanished gl s = Inr s'"
  proof (cases "focused_window gl")
    case None
    then show ?thesis by (simp add: player_vanished_def)
  next
    case (Some w)
    assume ok: "state_ok s"
    show ?thesis
    proof (cases "module_data s w")
      case None
      with Some show ?thesis by (simp add: player_vanished_def)
    next
      case (Some a)
      with ok obtain wd where "heap s a = Some wd"
        unfolding state_ok_def by blast
      with Some \<open>focused_window gl = Some w\<close> show ?thesis
        by (simp add: player_vanished_def gtk_widget_destroy_revealer_def)
    qed
  qed
  show ?thesis
    using a b c d e f g h by (simp add: session_of_def split: option.splits)
qed

theorem player_session_tracker_witness:
  "session_of (on_activation 0 None [] demo_connect initial_state) = NoPlayer \<and>
   session_of (on_activation 0 (Some ''no bus'') [''mpv''] demo_connect initial_state) = NoPlayer \<and>
   session_of run_activated = HasPlayer \<and>
   session_of (name_appeared demo_connect ''mpv'' initial_state) = HasPlayer \<and>
   name_appeared demo_connect ''vlc'' run_activated = run_activated \<and>
   (\<exists>s'. player_vanished (focus_on 1) run_focus1 = Inr s' \<and> session_of s' = NoPlayer)"
proof -
  have i0: "session_of initial_state = NoPlayer"
    by (simp add: session_of_def initial_state_def)
  have c1: "demo_connect ''mpv'' = Some (demo_player\<lparr>player_name := ''mpv''\<rparr>)"
    by (simp add: demo_connect_def)
  have r: "session_of run_activated = HasPlayer"
    using player_session_tracker[of initial_state 0 None demo_connect "''no bus''" "[''mpv'']"
        "''mpv''" "demo_player\<lparr>player_name := ''mpv''\<rparr>" "[]" "focus_on 1"] c1
    by (simp add: run_activated_def)
  show ?thesis
    using i0 c1 r state_ok_run_focus1
      player_session_tracker[of initial_state 0 None demo_connect "''no bus''" "[''mpv'']"
        "''mpv''" "demo_player\<lparr>player_name := ''mpv''\<rparr>" "[]" "focus_on 1"]
      player_session_tracker[of run_activated 0 None demo_connect "''no bus''" "[''mpv'']"
        "''vlc''" "demo_player\<lparr>player_name := ''vlc''\<rparr>" "[]" "focus_on 1"]
      player_session_tracker[of run_focus1 0 None demo_connect "''no bus''" "[''mpv'']"
        "''vlc''" "demo_player\<lparr>player_name := ''vlc''\<rparr>" "[]" "focus_on 1"]
    by auto
qed

section \<open>The album-art fetcher\<close>

text \<open>
  C5. For a live widget with an art image and a tracked player, \<^verbatim>\<open>setup_album_art\<close>
  always leaves the placeholder icon in the image. With a null or empty art URI it does
  nothing else; with a \<open>file\<close> URI it starts one asynchronous file read; with an
  \<open>http\<close> or \<open>https\<close> URI it starts one asynchronous request; with any other non-empty
  URI it starts no fetch and logs exactly one warning.
\<close>

theorem setup_album_art_by_scheme:
  assumes "heap s a = Some wd" and "\<not> destroyed wd" and "album_art wd = Some img"
    and "current_player s = Some p"
  shows
    "(\<exists>s'. setup_album_art a s = Inr s' \<and>
           heap s' = (heap s)(a \<mapsto> wd\<lparr>album_art := Some (Icon_name ''audio-x-generic-symbolic'')\<rparr>)) \<and>
     (\<not> present (art_url p) \<longrightarrow> new_effects s (setup_album_art a s) = Inr []) \<and>
     (\<forall>uri. art_url p = Some uri \<and> g_uri_peek_scheme uri = Some ''file'' \<longrightarrow>
        new_effects s (setup_album_art a s) = Inr [G_file_read_async uri a]) \<and>
     (\<forall>uri. art_url p = Some uri \<and>
            (g_uri_peek_scheme uri = Some ''http'' \<or> g_uri_peek_scheme uri = Some ''https'') \<longrightarrow>
        new_effects s (setup_album_art a s) = Inr [Soup_session_send_async uri a]) \<and>
     (\<forall>uri. art_url p = Some uri \<and> uri \<noteq> [] \<and>
            g_uri_peek_scheme uri \<notin> {Some ''file'', Some ''http'', Some ''https''} \<longrightarrow>
        new_effects s (setup_album_art a s) =
          Inr [G_warning ''Failed loading album art (g_uri_peek_scheme): Unknown scheme''])"
proof -
  let ?s1 = "store a (wd\<lparr>album_art := Some (Icon_name ''audio-x-generic-symbolic'')\<rparr>) s"
  have step: "setup_album_art a s =
      (case art_url p of
         None \<Rightarrow> Inr ?s1
       | Some uri \<Rightarrow>
           if uri = [] then Inr ?s1
           else if g_uri_peek_scheme uri = Some ''file'' then Inr (emit (G_file_read_async uri a) ?s1)
           else if g_uri_peek_scheme uri = Some ''http'' \<or> g_uri_peek_scheme uri = Some ''https''
             then Inr (emit (Soup_session_send_async uri a) ?s1)
           else Inr (g_warning ''Failed loading album art (g_uri_peek_scheme): Unknown scheme'' ?s1))"
    unfolding setup_album_art_def using assms
    by (simp add: gtk_image_set_Some split del: if_split)
  have c_empty: "\<not> present (art_url p) \<Longrightarrow> setup_album_art a s = Inr ?s1"
    by (simp add: step present_def split: option.splits)
  have c_file: "\<And>uri. art_url p = Some uri \<Longrightarrow> g_uri_peek_scheme uri = Some ''file'' \<Longrightarrow>
      setup_album_art a s = Inr (emit (G_file_read_async uri a) ?s1)"
    by (auto simp add: step)
  have c_http: "\<And>uri. art_url p = Some uri \<Longrightarrow>
      g_uri_peek_scheme uri = Some ''http'' \<or> g_uri_peek_scheme uri = Some ''https'' \<Longrightarrow>
      setup_album_art a s = Inr (emit (Soup_session_send_async uri a) ?s1)"
    by (auto simp add: step)
  have c_other: "\<And>uri. art_url p = Some uri \<Longrightarrow> uri \<noteq> [] \<Longrightarrow>
      g_uri_peek_scheme uri \<notin> {Some ''file'', Some ''http'', Some ''https''} \<Longrightarrow>
      setup_album_art a s =
        Inr (g_warning ''Failed loading album art (g_uri_peek_scheme): Unknown scheme'' ?s1)"
    by (simp add: step)
  have placeholder: "\<exists>s'. setup_album_art a s = Inr s' \<and>
           heap s' = (heap s)(a \<mapsto> wd\<lparr>album_art := Some (Icon_name ''audio-x-generic-symbolic'')\<rparr>)"
    by (simp add: step split: option.split)
  show ?thesis
    using placeholder
    by (simp add: c_empty c_file c_http c_other new_effects_Inr)
qed

theorem setup_album_art_by_scheme_witness:
  "new_effects run_focus0 (setup_album_art 0 run_focus0) = Inr [G_file_read_async ''file:///tmp/cover.png'' 0] \<and>
   new_effects (run_focus0\<lparr>current_player := Some (demo_player\<lparr>art_url := Some ''https://example.org/a.png''\<rparr>)\<rparr>)
     (setup_album_art 0 (run_focus0\<lparr>current_player := Some (demo_player\<lparr>art_url := Some ''https://example.org/a.png''\<rparr>)\<rparr>))
     = Inr [Soup_session_send_async ''https://example.org/a.png'' 0] \<and>
   new_effects (run_focus0\<lparr>current_player := Some (demo_player\<lparr>art_url := Some ''ftp://example.org/a.png''\<rparr>)\<rparr>)
     (setup_album_art 0 (run_focus0\<lparr>current_player := Some (demo_player\<lparr>art_url := Some ''ftp://example.org/a.png''\<rparr>)\<rparr>))
     = Inr [G_warning ''Failed loading album art (g_uri_peek_scheme): Unknown scheme''] \<and>
   new_effects (run_focus0\<lparr>current_player := Some (demo_player\<lparr>art_url := Some []\<rparr>)\<rparr>)
     (setup_album_art 0 (run_focus0\<lparr>current_player := Some (demo_player\<lparr>art_url := Some []\<rparr>)\<rparr>))
     = Inr [] \<and>
   new_effects (run_focus0\<lparr>current_player := Some (demo_player\<lparr>art_url := None\<rparr>)\<rparr>)
     (setup_album_art 0 (run_focus0\<lparr>current_player := Some (demo_player\<lparr>art_url := None\<rparr>)\<rparr>))
     = Inr []"
proof -
  have h: "heap run_focus0 0 = Some (demo_widget True)" "\<not> destroyed (demo_widget True)"
    "album_art (demo_widget True) = Some (Icon_name ''audio-x-generic-symbolic'')"
    by (simp_all add: run_focus0_val demo_widget_def)
  have sch: "g_uri_peek_scheme ''file:///tmp/cover.png'' = Some ''file''"
    "g_uri_peek_scheme ''https://example.org/a.png'' = Some ''https''"
    "g_uri_peek_scheme ''ftp://example.org/a.png'' = Some ''ftp''"
    by (simp_all add: g_uri_peek_scheme_def g_ascii_isalpha_def g_ascii_isdigit_def scheme_char_def
        g_ascii_tolower_def)
  have cp: "current_player run_focus0 = Some demo_player"
    by (simp add: run_focus0_val)
  have au: "art_url demo_player = Some ''file:///tmp/cover.png''"
    by (simp add: demo_player_def)
  show ?thesis
    using au sch
      setup_album_art_by_scheme[of run_focus0 0 "demo_widget True" _ demo_player, OF _ h(2,3) cp]
      setup_album_art_by_scheme[of "run_focus0\<lparr>current_player := Some (demo_player\<lparr>art_url := Some ''https://example.org/a.png''\<rparr>)\<rparr>"
        0 "demo_widget True" _ "demo_player\<lparr>art_url := Some ''https://example.org/a.png''\<rparr>", OF _ h(2,3)]
      setup_album_art_by_scheme[of "run_focus0\<lparr>current_player := Some (demo_player\<lparr>art_url := Some ''ftp://example.org/a.png''\<rparr>)\<rparr>"
        0 "demo_widget True" _ "demo_player\<lparr>art_url := Some ''ftp://example.org/a.png''\<rparr>", OF _ h(2,3)]
      setup_album_art_by_scheme[of "run_focus0\<lparr>current_player := Some (demo_player\<lparr>art_url := Some []\<rparr>)\<rparr>"
        0 "demo_widget True" _ "demo_player\<lparr>art_url := Some []\<rparr>", OF _ h(2,3)]
      setup_album_art_by_scheme[of "run_focus0\<lparr>current_player := Some (demo_player\<lparr>art_url := None\<rparr>)\<rparr>"
        0 "demo_widget True" _ "demo_player\<lparr>art_url := None\<rparr>", OF _ h(2,3)]
    by (simp add: h(1) present_def)
qed

section \<open>Recomputing the sensitivity of the buttons\<close>

text \<open>
  C6, as the code has it. A refresh of a live widget while a player is tracked sets the
  sensitivity of the three buttons from the player's \<open>can-go-previous\<close>, \<open>can-pause\<close>
  and \<open>can-go-next\<close> flags at once, and registers one timeout of one second for the
  widget. When that timeout is dispatched the sensitivity is set again from the flags
  the player has then, and the timeout is gone: the handler returns
  \<^verbatim>\<open>G_SOURCE_REMOVE\<close> on every path, so no dispatch ever leaves its timeout installed.
\<close>

theorem button_sensitivity_after_refresh_and_once_later:
  assumes "heap s a = Some wd" and "\<not> destroyed wd" and "album_art wd = Some img"
    and "current_player s = Some p"
  shows
    "(\<exists>s' wd'. setup_metadata a s = Inr s' \<and> heap s' a = Some wd' \<and>
        sensitive (previous_button wd') = can_go_previous p \<and>
        sensitive (play_pause_button wd') = can_pause p \<and>
        sensitive (next_button wd') = can_go_next p \<and>
        timeouts s' = timeouts s @ [(1, a)]) \<and>
     (\<forall>rest. timeouts s = (1, a) # rest \<longrightarrow>
        (\<exists>s' wd'. g_timeout_dispatch s = Inr s' \<and> heap s' a = Some wd' \<and>
           sensitive (previous_button wd') = can_go_previous p \<and>
           sensitive (play_pause_button wd') = can_pause p \<and>
           sensitive (next_button wd') = can_go_next p \<and>
           timeouts s' = rest)) \<and>
     (\<forall>b t r. setup_button_sensitive_handler b t = Inr r \<longrightarrow> fst r = G_SOURCE_REMOVE) \<and>
     (\<forall>t u rest t'. timeouts t = u # rest \<and> g_timeout_dispatch t = Inr t' \<longrightarrow> timeouts t' = rest)"
proof -
  from setup_metadata_player[OF assms] obtain evs where
    "setup_metadata a s =
     Inr (s\<lparr>heap := (heap s)(a \<mapsto> refreshed p wd), timeouts := timeouts s @ [(1, a)],
            trace := trace s @ evs @ [G_timeout_add_seconds 1 a]\<rparr>)"
    by blast
  then have first: "\<exists>s' wd'. setup_metadata a s = Inr s' \<and> heap s' a = Some wd' \<and>
        sensitive (previous_button wd') = can_go_previous p \<and>
        sensitive (play_pause_button wd') = can_pause p \<and>
        sensitive (next_button wd') = can_go_next p \<and>
        timeouts s' = timeouts s @ [(1, a)]"
    by (simp add: refreshed_def)
  have second: "\<exists>s' wd'. g_timeout_dispatch s = Inr s' \<and> heap s' a = Some wd' \<and>
           sensitive (previous_button wd') = can_go_previous p \<and>
           sensitive (play_pause_button wd') = can_pause p \<and>
           sensitive (next_button wd') = can_go_next p \<and>
           timeouts s' = rest" if "timeouts s = (1, a) # rest" for rest
  proof -
    have "heap (s\<lparr>timeouts := rest\<rparr>) a = Some wd" "current_player (s\<lparr>timeouts := rest\<rparr>) = Some p"
      using assms by simp_all
    from handler_live[OF this(1) assms(2) this(2)] that show ?thesis
      by (simp add: g_timeout_dispatch_def G_SOURCE_REMOVE_def G_SOURCE_CONTINUE_def)
  qed
  have third: "\<forall>b t r. setup_button_sensitive_handler b t = Inr r \<longrightarrow> fst r = G_SOURCE_REMOVE"
    using handler_returns_remove by blast
  have fourth: "\<forall>t u rest t'. timeouts t = u # rest \<and> g_timeout_dispatch t = Inr t' \<longrightarrow> timeouts t' = rest"
    using dispatch_removes by blast
  from second have second': "\<forall>rest. timeouts s = (1, a) # rest \<longrightarrow>
        (\<exists>s' wd'. g_timeout_dispatch s = Inr s' \<and> heap s' a = Some wd' \<and>
           sensitive (previous_button wd') = can_go_previous p \<and>
           sensitive (play_pause_button wd') = can_pause p \<and>
           sensitive (next_button wd') = can_go_next p \<and>
           timeouts s' = rest)"
    by blast
  from first second' third fourth show ?thesis
    by (intro conjI)
qed

theorem button_sensitivity_after_refresh_and_once_later_witness:
  "(\<exists>s'. setup_metadata 0 run_focus0 = Inr s' \<and> timeouts s' = [(1, 0), (1, 0)]) \<and>
   (\<exists>s' wd'. g_timeout_dispatch run_focus0 = Inr s' \<and> heap s' 0 = Some wd' \<and>
      sensitive (next_button wd') \<and> \<not> sensitive (previous_button wd') \<and> timeouts s' = [])"
proof -
  have h: "heap run_focus0 0 = Some (demo_widget True)" "\<not> destroyed (demo_widget True)"
    "album_art (demo_widget True) = Some (Icon_name ''audio-x-generic-symbolic'')"
    "current_player run_focus0 = Some demo_player"
    by (simp_all add: run_focus0_val demo_widget_def)
  have t: "timeouts run_focus0 = [(1, 0)]"
    by (simp add: run_focus0_val)
  note th = button_sensitivity_after_refresh_and_once_later[OF h]
  from th[THEN conjunct1] t have a: "\<exists>s'. setup_metadata 0 run_focus0 = Inr s' \<and> timeouts s' = [(1, 0), (1, 0)]"
    by auto
  from th[THEN conjunct2, THEN conjunct1, rule_format, OF t]
  have b: "\<exists>s' wd'. g_timeout_dispatch run_focus0 = Inr s' \<and> heap s' 0 = Some wd' \<and>
      sensitive (next_button wd') \<and> \<not> sensitive (previous_button wd') \<and> timeouts s' = []"
    by (auto simp add: demo_player_def)
  from a b show ?thesis by (intro conjI)
qed

text \<open>
  C6 as stated fails: in the run, the refresh made for window 0 leaves one timeout
  pending, and after that timeout has fired none is pending. The evaluation is
  repeated once, not on a recurring cadence.
\<close>

theorem timeout_not_recurring_counterexample:
  "timeouts run_focus0 = [(1, 0)] \<and>
   then_do (g_timeout_dispatch run_focus0) (\<lambda>s. Inr (timeouts s)) = Inr []"
  by (simp add: run_focus0_val g_timeout_dispatch_def setup_button_sensitive_handler_def
      demo_widget_def demo_player_def G_SOURCE_REMOVE_def G_SOURCE_CONTINUE_def)

section \<open>Labels after a refresh\<close>

text \<open>
  C4. Take a live widget that has its art image, and any of the fields title, album,
  artist. A refresh made while the tracked player's value of the field is absent or
  empty leaves no label for the field. A refresh made while the value is a non-empty
  string leaves exactly one label for it, named after the field and showing the value
  (in bold markup for the title). Refreshing with an empty, then a non-empty, then an
  empty value leaves no label for the field at the end.
\<close>

theorem refresh_labels_by_field:
  assumes "heap s a = Some wd" and "\<not> destroyed wd" and "album_art wd = Some img"
  shows
    "(\<forall>p. field_value f p = None \<or> field_value f p = Some [] \<longrightarrow>
        (\<exists>s'. setup_metadata a (s\<lparr>current_player := Some p\<rparr>) = Inr s' \<and> labels_for f a s' = [])) \<and>
     (\<forall>p v. field_value f p = Some v \<and> v \<noteq> [] \<longrightarrow>
        (\<exists>s' l. setup_metadata a (s\<lparr>current_player := Some p\<rparr>) = Inr s' \<and>
           labels_for f a s' = [l] \<and> label_name l = field_label f \<and>
           label_text l = (if f = Title then Bold_markup v else Plain v))) \<and>
     (\<forall>p1 p2 p3 v. (field_value f p1 = None \<or> field_value f p1 = Some []) \<and>
        field_value f p2 = Some v \<and> v \<noteq> [] \<and>
        (field_value f p3 = None \<or> field_value f p3 = Some []) \<longrightarrow>
        (\<exists>s1 s2 s3 l.
           setup_metadata a (s\<lparr>current_player := Some p1\<rparr>) = Inr s1 \<and> labels_for f a s1 = [] \<and>
           setup_metadata a (s1\<lparr>current_player := Some p2\<rparr>) = Inr s2 \<and> labels_for f a s2 = [l] \<and>
           setup_metadata a (s2\<lparr>current_player := Some p3\<rparr>) = Inr s3 \<and> labels_for f a s3 = []))"
proof -
  have absent: "\<exists>s'. setup_metadata a (t\<lparr>current_player := Some p\<rparr>) = Inr s' \<and>
      heap s' a = Some (refreshed p d) \<and> labels_for f a s' = []"
    if "heap t a = Some d" "\<not> destroyed d" "album_art d = Some i"
      "field_value f p = None \<or> field_value f p = Some []" for t d i p
    using refresh_with[OF that(1,2,3), of p f] that(4) by (auto simp add: present_iff)
  have there: "\<exists>s' l. setup_metadata a (t\<lparr>current_player := Some p\<rparr>) = Inr s' \<and>
      heap s' a = Some (refreshed p d) \<and> labels_for f a s' = [l] \<and> label_name l = field_label f \<and>
      label_text l = (if f = Title then Bold_markup v else Plain v)"
    if "heap t a = Some d" "\<not> destroyed d" "album_art d = Some i"
      "field_value f p = Some v" "v \<noteq> []" for t d i p v
    using refresh_with[OF that(1,2,3), of p f] that(4,5)
    by (cases f) (auto simp add: present_iff)
  have trip: "\<exists>s1 s2 s3 l.
           setup_metadata a (s\<lparr>current_player := Some p1\<rparr>) = Inr s1 \<and> labels_for f a s1 = [] \<and>
           setup_metadata a (s1\<lparr>current_player := Some p2\<rparr>) = Inr s2 \<and> labels_for f a s2 = [l] \<and>
           setup_metadata a (s2\<lparr>current_player := Some p3\<rparr>) = Inr s3 \<and> labels_for f a s3 = []"
    if e1: "field_value f p1 = None \<or> field_value f p1 = Some []"
      and e2: "field_value f p2 = Some v" "v \<noteq> []"
      and e3: "field_value f p3 = None \<or> field_value f p3 = Some []" for p1 p2 p3 v
  proof -
    from absent[OF assms e1] obtain s1 where
      s1: "setup_metadata a (s\<lparr>current_player := Some p1\<rparr>) = Inr s1"
        "heap s1 a = Some (refreshed p1 wd)" "labels_for f a s1 = []"
      by blast
    have d1: "\<not> destroyed (refreshed p1 wd)"
      "album_art (refreshed p1 wd) = Some (Icon_name ''audio-x-generic-symbolic'')"
      using assms by simp_all
    from there[OF s1(2) d1 e2] obtain s2 l where
      s2: "setup_metadata a (s1\<lparr>current_player := Some p2\<rparr>) = Inr s2"
        "heap s2 a = Some (refreshed p2 (refreshed p1 wd))" "labels_for f a s2 = [l]"
      by blast
    have d2: "\<not> destroyed (refreshed p2 (refreshed p1 wd))"
      "album_art (refreshed p2 (refreshed p1 wd)) = Some (Icon_name ''audio-x-generic-symbolic'')"
      using assms by simp_all
    from absent[OF s2(2) d2 e3] obtain s3 where
      s3: "setup_metadata a (s2\<lparr>current_player := Some p3\<rparr>) = Inr s3" "labels_for f a s3 = []"
      by blast
    from s1 s2 s3 show ?thesis by blast
  qed
  have c1: "\<forall>p. field_value f p = None \<or> field_value f p = Some [] \<longrightarrow>
        (\<exists>s'. setup_metadata a (s\<lparr>current_player := Some p\<rparr>) = Inr s' \<and> labels_for f a s' = [])"
    using absent[OF assms] by blast
  have c2: "\<forall>p v. field_value f p = Some v \<and> v \<noteq> [] \<longrightarrow>
        (\<exists>s' l. setup_metadata a (s\<lparr>current_player := Some p\<rparr>) = Inr s' \<and>
           labels_for f a s' = [l] \<and> label_name l = field_label f \<and>
           label_text l = (if f = Title then Bold_markup v else Plain v))"
    using there[OF assms] by blast
  have c3: "\<forall>p1 p2 p3 v. (field_value f p1 = None \<or> field_value f p1 = Some []) \<and>
        field_value f p2 = Some v \<and> v \<noteq> [] \<and>
        (field_value f p3 = None \<or> field_value f p3 = Some []) \<longrightarrow>
        (\<exists>s1 s2 s3 l.
           setup_metadata a (s\<lparr>current_player := Some p1\<rparr>) = Inr s1 \<and> labels_for f a s1 = [] \<and>
           setup_metadata a (s1\<lparr>current_player := Some p2\<rparr>) = Inr s2 \<and> labels_for f a s2 = [l] \<and>
           setup_metadata a (s2\<lparr>current_player := Some p3\<rparr>) = Inr s3 \<and> labels_for f a s3 = [])"
    using trip by (intro allI impI) (elim conjE, assumption+)
  from c1 c2 c3 show ?thesis by (intro conjI)
qed


theorem refresh_labels_by_field_witness:
  "(\<exists>s' l. setup_metadata 0 (run_focus0\<lparr>current_player := Some demo_player\<rparr>) = Inr s' \<and>
      labels_for Title 0 s' = [l] \<and> label_name l = ''title-label'' \<and>
      label_text l = Bold_markup ''Song'') \<and>
   (\<exists>s'. setup_metadata 0 (run_focus0\<lparr>current_player := Some demo_player\<rparr>) = Inr s' \<and>
      labels_for Artist 0 s' = []) \<and>
   (\<exists>s1 s2 s3 l.
      setup_metadata 0 (run_focus0\<lparr>current_player := Some demo_player\<rparr>) = Inr s1 \<and>
      labels_for Album 0 s1 = [] \<and>
      setup_metadata 0 (s1\<lparr>current_player := Some (demo_player\<lparr>album := Some ''LP''\<rparr>)\<rparr>) = Inr s2 \<and>
      labels_for Album 0 s2 = [l] \<and>
      setup_metadata 0 (s2\<lparr>current_player := Some (demo_player\<lparr>album := None\<rparr>)\<rparr>) = Inr s3 \<and>
      labels_for Album 0 s3 = [])"
proof -
  have h: "heap run_focus0 0 = Some (demo_widget True)" "\<not> destroyed (demo_widget True)"
    "album_art (demo_widget True) = Some (Icon_name ''audio-x-generic-symbolic'')"
    by (simp_all add: run_focus0_val demo_widget_def)
  have t: "field_value Title demo_player = Some ''Song'' \<and> ''Song'' \<noteq> []"
    by (simp add: field_value_def demo_player_def)
  have ar: "field_value Artist demo_player = None \<or> field_value Artist demo_player = Some []"
    by (simp add: field_value_def demo_player_def)
  have al: "(field_value Album demo_player = None \<or> field_value Album demo_player = Some []) \<and>
      field_value Album (demo_player\<lparr>album := Some ''LP''\<rparr>) = Some ''LP'' \<and> ''LP'' \<noteq> [] \<and>
      (field_value Album (demo_player\<lparr>album := None\<rparr>) = None \<or>
       field_value Album (demo_player\<lparr>album := None\<rparr>) = Some [])"
    by (simp add: field_value_def demo_player_def)
  from refresh_labels_by_field[OF h, of Title, THEN conjunct2, THEN conjunct1, rule_format, OF t]
  have a: "\<exists>s' l. setup_metadata 0 (run_focus0\<lparr>current_player := Some demo_player\<rparr>) = Inr s' \<and>
      labels_for Title 0 s' = [l] \<and> label_name l = ''title-label'' \<and>
      label_text l = Bold_markup ''Song''"
    by (simp add: field_label_def)
  note b = refresh_labels_by_field[OF h, of Artist, THEN conjunct1, rule_format, OF ar]
  note c = refresh_labels_by_field[OF h, of Album, THEN conjunct2, THEN conjunct2, rule_format, OF al]
  from a b c show ?thesis by (intro conjI)
qed

section \<open>Destroying a widget state\<close>

text \<open>
  C1, as the code has it on the player-vanished path. When the player vanishes while the
  focused window has a widget state, the handler tears the revealer down and then stores
  \<open>destroyed = TRUE\<close>, in this order and with nothing in between. From then on, whatever
  events the main loop delivers, the struct stays as the handler left it, and any
  completion of an art fetch delivered for it finds the flag set: a completion that
  carries a stream changes nothing at all, and one that carries a failure only logs it;
  neither changes any struct.
\<close>

theorem player_vanished_tears_down_then_flags:
  assumes "state_ok s" and "focused_window gl = Some w" and "module_data s w = Some a"
  shows
    "\<exists>s' wd. player_vanished gl s = Inr s' \<and> heap s a = Some wd \<and>
       new_effects s (player_vanished gl s) = Inr [Gtk_widget_destroy a, Store_destroyed a] \<and>
       heap s' = (heap s)(a \<mapsto> wd\<lparr>revealer := (revealer wd)\<lparr>torn_down := True\<rparr>, destroyed := True\<rparr>) \<and>
       (\<forall>nf es s''. deliver_all nf es s' = Inr s'' \<longrightarrow>
          heap s'' a = heap s' a \<and>
          (\<forall>strm. set_art_from_stream strm a s'' = Inr s'') \<and>
          (\<forall>res. \<exists>t. file_callback res a s'' = Inr t \<and> heap t = heap s'') \<and>
          (\<forall>res. \<exists>t. request_callback res a s'' = Inr t \<and> heap t = heap s''))"
proof -
  from assms(1,3) obtain wd where wd: "heap s a = Some wd" "a < next_addr s"
    and uniq: "\<forall>w'. module_data s w' = Some a \<longrightarrow> w' = w"
    unfolding state_ok_def by blast
  let ?wd' = "wd\<lparr>revealer := (revealer wd)\<lparr>torn_down := True\<rparr>, destroyed := True\<rparr>"
  let ?s' = "(emit (Store_destroyed a)
                (store a ?wd'
                   (emit (Gtk_widget_destroy a)
                      (store a (wd\<lparr>revealer := (revealer wd)\<lparr>torn_down := True\<rparr>\<rparr>)
                         (s\<lparr>current_player := None\<rparr>)))))
             \<lparr>module_data := (module_data s)(w := None)\<rparr>"
  have run: "player_vanished gl s = Inr ?s'"
    using assms(2,3) wd(1) by (simp add: player_vanished_def gtk_widget_destroy_revealer_def)
  have hp: "heap ?s' = (heap s)(a \<mapsto> ?wd')"
    by simp
  have tr: "trace ?s' = trace s @ [Gtk_widget_destroy a, Store_destroyed a]"
    by simp
  have ret: "retired a ?s'"
    using wd(2) uniq by (auto simp add: retired_def)
  have later: "heap s'' a = heap ?s' a \<and>
          (\<forall>strm. set_art_from_stream strm a s'' = Inr s'') \<and>
          (\<forall>res. \<exists>t. file_callback res a s'' = Inr t \<and> heap t = heap s'') \<and>
          (\<forall>res. \<exists>t. request_callback res a s'' = Inr t \<and> heap t = heap s'')"
    if "deliver_all nf es ?s' = Inr s''" for nf es s''
  proof -
    from retired_deliver_all[OF ret that] have k: "heap s'' a = heap ?s' a" by simp
    then have lk: "heap s'' a = Some ?wd'" by simp
    have sa: "set_art_from_stream strm a s'' = Inr s''" for strm
      unfolding set_art_from_stream_def using lk by simp
    have fc: "\<exists>t. file_callback res a s'' = Inr t \<and> heap t = heap s''" for res
      by (cases res) (simp_all add: file_callback_def sa)
    have rc: "\<exists>t. request_callback res a s'' = Inr t \<and> heap t = heap s''" for res
      by (cases res) (simp_all add: request_callback_def sa)
    from k sa fc rc show ?thesis by blast
  qed
  have ne: "new_effects s (player_vanished gl s) = Inr [Gtk_widget_destroy a, Store_destroyed a]"
    using run tr by (simp add: new_effects_Inr)
  from later have later_all: "\<forall>nf es s''. deliver_all nf es ?s' = Inr s'' \<longrightarrow>
          heap s'' a = heap ?s' a \<and>
          (\<forall>strm. set_art_from_stream strm a s'' = Inr s'') \<and>
          (\<forall>res. \<exists>t. file_callback res a s'' = Inr t \<and> heap t = heap s'') \<and>
          (\<forall>res. \<exists>t. request_callback res a s'' = Inr t \<and> heap t = heap s'')"
    by blast
  from run wd(1) ne hp later_all show ?thesis
    by (intro exI[of _ ?s'] exI[of _ wd] conjI)
qed

theorem player_vanished_tears_down_then_flags_witness:
  "player_vanished (focus_on 1) run_focus1 = Inr run_vanished \<and>
   new_effects run_focus1 (player_vanished (focus_on 1) run_focus1) =
     Inr [Gtk_widget_destroy 1, Store_destroyed 1] \<and>
   file_callback (Inr (Inr 7)) 1 run_vanished = Inr run_vanished \<and>
   (\<exists>s''. deliver_all demo_connect [Name_appeared ''vlc'', Timeout_due, On_idle_hide (focus_on 0)]
            run_vanished = Inr s'' \<and>
      heap s'' 1 = heap run_vanished 1 \<and>
      file_callback (Inr (Inr 7)) 1 s'' = Inr s'' \<and>
      request_callback (Inr (Inr 7)) 1 s'' = Inr s'')"
proof -
  have h: "focused_window (focus_on 1) = Some 1" "module_data run_focus1 1 = Some 1"
    by (simp_all add: focus_on_def run_focus1_val)
  note th = player_vanished_tears_down_then_flags[OF state_ok_run_focus1 h]
  from th obtain s' where "player_vanished (focus_on 1) run_focus1 = Inr s'"
    by blast
  then have rv: "player_vanished (focus_on 1) run_focus1 = Inr run_vanished"
    by (simp add: run_vanished_def)
  obtain s'' where
    es: "deliver_all demo_connect [Name_appeared ''vlc'', Timeout_due, On_idle_hide (focus_on 0)]
            run_vanished = Inr s''"
    by (simp add: run_vanished_val name_appeared_def demo_connect_def g_timeout_dispatch_def
        setup_button_sensitive_handler_def on_idle_hide_def gtk_revealer_set_reveal_child_def
        focus_on_def demo_widget_def G_SOURCE_REMOVE_def G_SOURCE_CONTINUE_def)
  from th rv
  have ne: "new_effects run_focus1 (player_vanished (focus_on 1) run_focus1) =
     Inr [Gtk_widget_destroy 1, Store_destroyed 1]"
    and later: "\<forall>nf es s''. deliver_all nf es run_vanished = Inr s'' \<longrightarrow>
          heap s'' 1 = heap run_vanished 1 \<and>
          (\<forall>strm. set_art_from_stream strm 1 s'' = Inr s'') \<and>
          (\<forall>res. \<exists>t. file_callback res 1 s'' = Inr t \<and> heap t = heap s'') \<and>
          (\<forall>res. \<exists>t. request_callback res 1 s'' = Inr t \<and> heap t = heap s'')"
    by auto
  have now: "deliver_all demo_connect [] run_vanished = Inr run_vanished"
    by simp
  from later[rule_format, OF now] have c3: "file_callback (Inr (Inr 7)) 1 run_vanished = Inr run_vanished"
    by (simp add: file_callback_def)
  from later[rule_format, OF es] have c4: "heap s'' 1 = heap run_vanished 1 \<and>
      file_callback (Inr (Inr 7)) 1 s'' = Inr s'' \<and>
      request_callback (Inr (Inr 7)) 1 s'' = Inr s''"
    by (simp add: file_callback_def request_callback_def)
  from rv ne c3 es c4 show ?thesis by blast
qed

text \<open>
  C1 as stated fails on both destroy paths of the run with windows 0 and 1. When the
  player vanishes, the revealer of the focused window's struct is torn down before the
  flag is stored. When the window is destroyed instead, the flag is never stored: the
  struct is freed, and a fetch completion delivered afterwards reads the freed struct.
\<close>

theorem destroy_paths_flag_counterexample:
  "new_effects run_focus1 (player_vanished (focus_on 1) run_focus1) =
     Inr [Gtk_widget_destroy 1, Store_destroyed 1] \<and>
   \<not> flag_before_teardown 1 [Gtk_widget_destroy 1, Store_destroyed 1] \<and>
   new_effects run_focus1 (on_window_destroy (focus_on 1) (Some 1) run_focus1) =
     Inr [Gtk_widget_destroy 1, G_free 1] \<and>
   \<not> flag_before_teardown 1 [Gtk_widget_destroy 1, G_free 1] \<and>
   then_do (on_window_destroy (focus_on 1) (Some 1) run_focus1) (file_callback (Inr (Inr 7)) 1) =
     Inl (Use_after_free 1)"
  by (simp add: run_focus1_val player_vanished_def on_window_destroy_def
      gtk_widget_destroy_revealer_def focus_on_def new_effects_def flag_before_teardown_def
      file_callback_def set_art_from_stream_def)

text \<open>
  C3, as the code has it. When the player vanishes, the widget state of the focused
  window (if that window has one) is destroyed: its revealer is torn down, its flag is
  set and the window's slot is cleared; every other slot and struct is left as it is.
  When a window is destroyed, its widget state (if present) is destroyed: the revealer
  is torn down, the struct is freed and the slot is cleared; a window without a widget
  state is left alone.
\<close>

theorem widget_state_destroyed_for_focused_window:
  "(focused_window gl = Some w \<and> module_data s w = Some a \<and> heap s a = Some wd \<longrightarrow>
      (\<exists>s'. player_vanished gl s = Inr s' \<and>
         heap s' = (heap s)(a \<mapsto> wd\<lparr>revealer := (revealer wd)\<lparr>torn_down := True\<rparr>, destroyed := True\<rparr>) \<and>
         module_data s' = (module_data s)(w := None))) \<and>
   (module_data s w = Some a \<and> heap s a = Some wd \<longrightarrow>
      (\<exists>s'. on_window_destroy gl (Some w) s = Inr s' \<and>
         new_effects s (on_window_destroy gl (Some w) s) = Inr [Gtk_widget_destroy a, G_free a] \<and>
         heap s' = (heap s)(a := None) \<and>
         module_data s' = (module_data s)(w := None))) \<and>
   (module_data s w = None \<longrightarrow> on_window_destroy gl (Some w) s = Inr s)"
  by (simp add: player_vanished_def on_window_destroy_def gtk_widget_destroy_revealer_def
      new_effects_Inr)

theorem widget_state_destroyed_for_focused_window_witness:
  "(\<exists>s'. player_vanished (focus_on 1) run_focus1 = Inr s' \<and>
      heap s' 1 = Some ((demo_widget True)
        \<lparr>revealer := (revealer (demo_widget True))\<lparr>torn_down := True\<rparr>, destroyed := True\<rparr>) \<and>
      module_data s' 1 = None) \<and>
   (\<exists>s'. on_window_destroy (focus_on 1) (Some 0) run_focus1 = Inr s' \<and>
      heap s' 0 = None \<and> module_data s' 0 = None) \<and>
   on_window_destroy (focus_on 1) (Some 2) run_focus1 = Inr run_focus1"
proof -
  have h: "focused_window (focus_on 1) = Some 1 \<and> module_data run_focus1 1 = Some 1 \<and>
      heap run_focus1 1 = Some (demo_widget True)"
    "module_data run_focus1 0 = Some 0 \<and> heap run_focus1 0 = Some (demo_widget False)"
    "module_data run_focus1 2 = None"
    by (simp_all add: focus_on_def run_focus1_val)
  note th = widget_state_destroyed_for_focused_window
  from th[of "focus_on 1" 1 run_focus1 1 "demo_widget True", THEN conjunct1, rule_format, OF h(1)]
  have a: "\<exists>s'. player_vanished (focus_on 1) run_focus1 = Inr s' \<and>
      heap s' 1 = Some ((demo_widget True)
        \<lparr>revealer := (revealer (demo_widget True))\<lparr>torn_down := True\<rparr>, destroyed := True\<rparr>) \<and>
      module_data s' 1 = None"
    by auto
  from th[of "focus_on 1" 0 run_focus1 0 "demo_widget False", THEN conjunct2, THEN conjunct1,
      rule_format, OF h(2)]
  have b: "\<exists>s'. on_window_destroy (focus_on 1) (Some 0) run_focus1 = Inr s' \<and>
      heap s' 0 = None \<and> module_data s' 0 = None"
    by auto
  note c = th[of "focus_on 1" 2 run_focus1 0 "demo_widget False", THEN conjunct2, THEN conjunct2,
      rule_format, OF h(3)]
  from a b c show ?thesis by (intro conjI)
qed

text \<open>
  C3 as stated fails for a window that is not the focused one: in the run, window 0
  has a live widget state while window 1 has the focus; after the player has vanished,
  window 0 still has its slot and its struct, neither flagged nor torn down.
\<close>

theorem unfocused_widget_survives_vanish_counterexample:
  "module_data run_focus1 0 = Some 0 \<and>
   heap run_focus1 0 = Some (demo_widget False) \<and>
   then_do (player_vanished (focus_on 1) run_focus1)
     (\<lambda>s'. Inr (module_data s' 0, heap s' 0)) = Inr (Some 0, Some (demo_widget False)) \<and>
   \<not> destroyed (demo_widget False) \<and> \<not> torn_down (revealer (demo_widget False))"
  by (simp add: run_focus1_val player_vanished_def gtk_widget_destroy_revealer_def focus_on_def
      demo_widget_def)

section \<open>Focus changes\<close>

text \<open>
  What a focus change does where it returns. Take a consistent state (every state the
  main loop reaches is one) in which a refresh is defined (the art size is not 0, or no
  player is tracked) and a call for a non-null new window. The widget state of the new
  window is ensured and refreshed, and its revealer is then set to
  \<open>\<not> hidden \<or> show_hidden\<close>. If the old window is null or is the new window, this
  is all. If the old window is another window that has a widget state, the revealer of
  that widget state is hidden and the rest of its struct (labels, art, buttons) is
  what it was before the call.
\<close>

lemma on_focus_change_reveals_new_hides_old:
  assumes "state_ok s" and "art_size s \<noteq> 0 \<or> current_player s = None"
  shows
    "\<exists>a s1 wd1.
       (case module_data s w of
          Some a \<Rightarrow> then_do (setup_metadata a s) (\<lambda>s1. Inr (a, s1))
        | None \<Rightarrow> setup_playerctl w s) = Inr (a, s1) \<and>
       module_data s1 w = Some a \<and> heap s1 a = Some wd1 \<and>
       on_focus_change gl (Some w) None s =
         Inr (store a (wd1\<lparr>revealer := (revealer wd1)\<lparr>reveal_child := (\<not> hidden gl \<or> show_hidden s)\<rparr>\<rparr>) s1) \<and>
       on_focus_change gl (Some w) (Some w) s =
         Inr (store a (wd1\<lparr>revealer := (revealer wd1)\<lparr>reveal_child := (\<not> hidden gl \<or> show_hidden s)\<rparr>\<rparr>) s1) \<and>
       (\<forall>ow oa owd. ow \<noteq> w \<and> module_data s ow = Some oa \<and> heap s oa = Some owd \<longrightarrow>
          oa \<noteq> a \<and> heap s1 oa = Some owd \<and>
          on_focus_change gl (Some w) (Some ow) s =
            Inr (store oa (owd\<lparr>revealer := (revealer owd)\<lparr>reveal_child := False\<rparr>\<rparr>)
                  (store a (wd1\<lparr>revealer := (revealer wd1)\<lparr>reveal_child := (\<not> hidden gl \<or> show_hidden s)\<rparr>\<rparr>) s1)))"
proof -
  from ensure_frame[OF assms, of w] obtain a s1 wd1 where
    run: "(case module_data s w of
          Some a \<Rightarrow> then_do (setup_metadata a s) (\<lambda>s1. Inr (a, s1))
        | None \<Rightarrow> setup_playerctl w s) = Inr (a, s1)"
    and hp: "heap s1 = (heap s)(a \<mapsto> wd1)"
    and md: "module_data s1 = (module_data s)(w \<mapsto> a)"
    and others: "\<forall>ow. ow \<noteq> w \<longrightarrow> module_data s ow \<noteq> Some a"
    and sh: "show_hidden s1 = show_hidden s"
    by blast
  let ?s2 = "store a (wd1\<lparr>revealer := (revealer wd1)\<lparr>reveal_child := (\<not> hidden gl \<or> show_hidden s)\<rparr>\<rparr>) s1"
  have m1: "module_data s1 w = Some a" using md by simp
  have h1: "heap s1 a = Some wd1" using hp by simp
  have rv: "gtk_revealer_set_reveal_child a (\<not> hidden gl \<or> show_hidden s1) s1 = Inr ?s2"
    using h1 sh by (simp add: set_reveal_live)
  have none: "on_focus_change gl (Some w) None s = Inr ?s2"
    unfolding on_focus_change_def using run rv by simp
  have same: "on_focus_change gl (Some w) (Some w) s = Inr ?s2"
    unfolding on_focus_change_def using run rv by simp
  have old: "oa \<noteq> a \<and> heap s1 oa = Some owd \<and>
          on_focus_change gl (Some w) (Some ow) s =
            Inr (store oa (owd\<lparr>revealer := (revealer owd)\<lparr>reveal_child := False\<rparr>\<rparr>) ?s2)"
    if "ow \<noteq> w" "module_data s ow = Some oa" "heap s oa = Some owd" for ow oa owd
  proof -
    from that(1,2) others have ne: "oa \<noteq> a" by blast
    with hp that(3) have ho: "heap s1 oa = Some owd" by simp
    have mo: "module_data ?s2 ow = Some oa" using md that(1,2) by simp
    have h2: "heap ?s2 oa = Some owd" using ho ne by simp
    have "on_focus_change gl (Some w) (Some ow) s =
        gtk_revealer_set_reveal_child oa False ?s2"
      unfolding on_focus_change_def using run rv that(1) mo by (simp del: store_fields)
    with h2 ne ho show ?thesis by (simp add: set_reveal_live del: store_fields)
  qed
  from run m1 h1 none same old show ?thesis
    by (intro exI[of _ a] exI[of _ s1] exI[of _ wd1] conjI allI impI) blast+
qed

lemma on_focus_change_reveals_new_hides_old_run:
  "\<exists>a s1 wd1. module_data s1 1 = Some a \<and> heap s1 a = Some wd1 \<and> 0 \<noteq> a \<and>
     heap s1 0 = Some (demo_widget True) \<and>
     on_focus_change (focus_on 1) (Some 1) (Some 0) run_focus0 =
       Inr (store 0 (demo_widget False)
             (store a (wd1\<lparr>revealer := (revealer wd1)\<lparr>reveal_child := True\<rparr>\<rparr>) s1))"
proof -
  have art: "art_size run_focus0 \<noteq> 0 \<or> current_player run_focus0 = None"
    by (simp add: run_focus0_val)
  have old: "(0::nat) \<noteq> 1 \<and> module_data run_focus0 0 = Some 0 \<and>
      heap run_focus0 0 = Some (demo_widget True)"
    by (simp add: run_focus0_val)
  have hid: "(demo_widget True)\<lparr>revealer := (revealer (demo_widget True))\<lparr>reveal_child := False\<rparr>\<rparr> =
      demo_widget False"
    by (simp add: demo_widget_def)
  from on_focus_change_reveals_new_hides_old[OF state_ok_run_focus0 art, of 1 "focus_on 1"]
  obtain a s1 wd1 where
    a: "module_data s1 1 = Some a" "heap s1 a = Some wd1"
    and b: "\<forall>ow oa owd. ow \<noteq> 1 \<and> module_data run_focus0 ow = Some oa \<and> heap run_focus0 oa = Some owd \<longrightarrow>
          oa \<noteq> a \<and> heap s1 oa = Some owd \<and>
          on_focus_change (focus_on 1) (Some 1) (Some ow) run_focus0 =
            Inr (store oa (owd\<lparr>revealer := (revealer owd)\<lparr>reveal_child := False\<rparr>\<rparr>)
                  (store a (wd1\<lparr>revealer := (revealer wd1)\<lparr>reveal_child :=
                     (\<not> hidden (focus_on 1) \<or> show_hidden run_focus0)\<rparr>\<rparr>) s1))"
    by blast
  from b[rule_format, OF old] a hid show ?thesis
    by (auto simp add: focus_on_def)
qed

text \<open>
  C7. The call is to hide the old window's revealer whenever the old window is non-null
  and is not the new window. The code does so only while the old window still has its
  widget state. In the run from the initial state (activation with one player, focus on
  window 0, focus moved to window 1, player vanished), the module's own
  \<^verbatim>\<open>player_vanished\<close> has cleared the slot of window 1; the next focus change, from
  window 1 back to window 0, refreshes window 0 and then aborts at
  \<^verbatim>\<open>g_assert(old_widget)\<close> instead of returning.
\<close>

theorem focus_change_after_vanish_aborts:
  "deliver_all demo_connect
     [On_activation 0 None [''mpv''], On_focus_change (focus_on 0) (Some 0) None,
      On_focus_change (focus_on 1) (Some 1) (Some 0), Player_vanished (focus_on 1),
      On_focus_change (focus_on 0) (Some 0) (Some 1)]
     initial_state = Inl (Assert_failed ''old_widget'')"
proof -
  have last: "on_focus_change (focus_on 0) (Some 0) (Some 1) run_vanished =
      Inl (Assert_failed ''old_widget'')"
    by (simp add: run_vanished_val on_focus_change_def setup_metadata_def
        gtk_revealer_set_reveal_child_def focus_on_def demo_widget_def)
  have "deliver_all demo_connect
     ([On_activation 0 None [''mpv''], On_focus_change (focus_on 0) (Some 0) None,
       On_focus_change (focus_on 1) (Some 1) (Some 0), Player_vanished (focus_on 1)] @
      [On_focus_change (focus_on 0) (Some 0) (Some 1)])
     initial_state =
     then_do (deliver_all demo_connect
       [On_activation 0 None [''mpv''], On_focus_change (focus_on 0) (Some 0) None,
        On_focus_change (focus_on 1) (Some 1) (Some 0), Player_vanished (focus_on 1)]
       initial_state)
       (deliver_all demo_connect [On_focus_change (focus_on 0) (Some 0) (Some 1)])"
    by (rule deliver_all_append)
  also have "\<dots> = deliver_all demo_connect [On_focus_change (focus_on 0) (Some 0) (Some 1)] run_vanished"
    by (simp only: run_reached then_do_Inr)
  also have "\<dots> = Inl (Assert_failed ''old_widget'')"
    by (simp only: deliver_all.simps deliver.simps last then_do_Inl)
  finally show ?thesis by simp
qed

text \<open>
  C10. \<^verbatim>\<open>on_focus_change\<close> asserts that the old window, when it is non-null and is not
  the new window, has a widget state: in a consistent state in which a refresh is
  defined, a focus change away from a window whose slot is empty fails the assertion
  \<^verbatim>\<open>g_assert(old_widget)\<close> rather than leaving the old window alone.
\<close>

theorem on_focus_change_asserts_old_widget:
  assumes "state_ok s" and "art_size s \<noteq> 0 \<or> current_player s = None"
    and "ow \<noteq> w" and "module_data s ow = None"
  shows "on_focus_change gl (Some w) (Some ow) s = Inl (Assert_failed ''old_widget'')"
proof -
  from ensure_frame[OF assms(1,2), of w] obtain a s1 wd1 where
    run: "(case module_data s w of
          Some a \<Rightarrow> then_do (setup_metadata a s) (\<lambda>s1. Inr (a, s1))
        | None \<Rightarrow> setup_playerctl w s) = Inr (a, s1)"
    and hp: "heap s1 = (heap s)(a \<mapsto> wd1)"
    and md: "module_data s1 = (module_data s)(w \<mapsto> a)"
    by blast
  have h1: "heap s1 a = Some wd1" using hp by simp
  have mo: "module_data s1 ow = None" using md assms(3,4) by simp
  show ?thesis
    unfolding on_focus_change_def using run h1 mo assms(3)
    by (simp add: set_reveal_live)
qed

theorem on_focus_change_asserts_old_widget_witness:
  "state_ok run_vanished \<and> current_player run_vanished = None \<and>
   module_data run_vanished 1 = None \<and>
   on_focus_change \<lparr>focused_window = Some 0, hidden = True\<rparr> (Some 0) (Some 1) run_vanished =
     Inl (Assert_failed ''old_widget'')"
proof -
  have c: "art_size run_vanished \<noteq> 0 \<or> current_player run_vanished = None"
    "(1::nat) \<noteq> 0" "module_data run_vanished 1 = None" "current_player run_vanished = None"
    by (simp_all add: run_vanished_val)
  from on_focus_change_asserts_old_widget[OF state_ok_run_vanished c(1,2,3)]
    state_ok_run_vanished c(3,4)
  show ?thesis by simp
qed

section \<open>Art size 0\<close>

text \<open>
  C9. With the art size configured as 0, building a widget creates no art image: the
  field \<open>album_art\<close> of the new struct is never assigned. A refresh made while a player is
  tracked nevertheless runs \<^verbatim>\<open>setup_album_art\<close>, whose first statement resets the
  placeholder through that unassigned handle. This happens when the widget was built
  before the player appeared and its metadata then changes, and when the widget is
  built for a player that has just appeared.
\<close>

theorem art_size_zero_refresh_touches_art:
  "album_art (new_widget (initial_state\<lparr>art_size := 0\<rparr>)) = None \<and>
   then_do (setup_playerctl 0 (on_activation 0 None [] demo_connect (initial_state\<lparr>art_size := 0\<rparr>)))
     (\<lambda>r. Inr (map_option album_art (heap (snd r) (fst r)))) = Inr (Some None) \<and>
   then_do (setup_playerctl 0 (on_activation 0 None [] demo_connect (initial_state\<lparr>art_size := 0\<rparr>)))
     (\<lambda>r. metadata (focus_on 0) (name_appeared demo_connect ''mpv'' (snd r))) =
     Inl (Uninitialised_read 0) \<and>
   player_appeared (focus_on 0)
     (name_appeared demo_connect ''mpv''
        (on_activation 0 None [] demo_connect (initial_state\<lparr>art_size := 0\<rparr>))) =
     Inl (Uninitialised_read 0)"
  by (simp add: player_appeared_def name_appeared_def metadata_def run_defs)

end
